theory Spec2Isabelle
  imports Complex_Main "HOL-Library.AList"
begin

section \<open>Values exchanged with the platform\<close>

text \<open>
  A JSON value, as \<^verbatim>\<open>response.json()\<close> resolves to and as \<^verbatim>\<open>JSON.stringify\<close> reads.
  A number is given by the text JavaScript prints for it (\<^verbatim>\<open>0\<close>, \<^verbatim>\<open>42\<close>, \<^verbatim>\<open>1.5\<close>, \<^verbatim>\<open>1e+21\<close>); an
  object is the list of its own properties, in the order \<^verbatim>\<open>JSON.stringify\<close> lists them.
\<close>

datatype json =
    JNull
  | JBool bool
  | JNum string
  | JStr string
  | JArr "json list"
  | JObj "(string \<times> json) list"

text \<open>JavaScript truthiness of a parsed value: \<^verbatim>\<open>null\<close>, \<^verbatim>\<open>false\<close>, \<^verbatim>\<open>0\<close> and \<^verbatim>\<open>""\<close> are falsy.\<close>

fun truthy :: "json \<Rightarrow> bool" where
  "truthy JNull = False"
| "truthy (JBool b) = b"
| "truthy (JNum s) = (s \<noteq> ''0'')"
| "truthy (JStr s) = (s \<noteq> [])"
| "truthy (JArr xs) = True"
| "truthy (JObj kvs) = True"

text \<open>
  Everything \<^verbatim>\<open>request\<close> can throw. \<open>NotiBoostError\<close> is the class of the source; its
  \<open>message\<close> is the string that \<^verbatim>\<open>Error\<close>'s constructor stores, kept as the JSON string
  \<open>JStr\<close> of it. The other constructors are the platform's failures: the abort raised by the
  timeout's signal, a rejected \<^verbatim>\<open>fetch\<close>, the \<^verbatim>\<open>TypeError\<close> of reading a property of \<^verbatim>\<open>null\<close>,
  the \<^verbatim>\<open>TypeError\<close> of converting to a string an object that has no callable \<^verbatim>\<open>toString\<close>,
  a plain \<^verbatim>\<open>Error\<close>, and \<^verbatim>\<open>undefined\<close> (the initial value of \<^verbatim>\<open>lastError\<close>).
\<close>

datatype thrown =
    NotiBoostError (message: json) (statusCode: nat) (response: json)
  | Error string
  | AbortError
  | FetchFailed string
  | TypeError_null string
  | TypeError_primitive
  | Undefined

fun instanceof_NotiBoostError :: "thrown \<Rightarrow> bool" where
  "instanceof_NotiBoostError (NotiBoostError m s r) = True"
| "instanceof_NotiBoostError e = False"

text \<open>
  The configuration object given to the constructor. \<open>None\<close> is an absent member; the
  interface requires \<^verbatim>\<open>apiKey\<close>, but the constructor tests for it, so it may be absent too.
  The timeout (milliseconds) and the retry count are natural numbers.
\<close>

record NotiBoostConfig =
  apiKey :: "string option"
  baseURL :: "string option"
  timeout :: "nat option"
  retries :: "nat option"

text \<open>
  An event is the caller's object: its own properties in the order \<^verbatim>\<open>JSON.stringify\<close> lists
  them. The interface names \<^verbatim>\<open>event_name\<close>, \<^verbatim>\<open>event_id\<close>, \<^verbatim>\<open>occurred_at\<close>, \<^verbatim>\<open>user_id\<close>
  (strings) and \<^verbatim>\<open>properties\<close>.
\<close>

type_synonym Event = "(string \<times> json) list"

record RequestOptions =
  headers :: "(string \<times> string) list option"

text \<open>The private fields of a client, \<^verbatim>\<open>this.apiKey\<close> and so on.\<close>

record NotiBoostClient =
  this_apiKey :: string
  this_baseURL :: string
  this_timeout :: nat
  this_retries :: nat

text \<open>
  The \<^verbatim>\<open>RequestInit\<close> given to \<^verbatim>\<open>fetch\<close>; \<open>init_body = Some v\<close> stands for the text
  \<^verbatim>\<open>JSON.stringify(v)\<close>, \<open>None\<close> for no body. The abort signal is the timeout passed to
  \<open>fetch\<close> below.
\<close>

record RequestInit =
  init_method :: string
  init_headers :: "(string \<times> string) list"
  init_body :: "json option"

text \<open>
  A \<^verbatim>\<open>Response\<close>, by what the source asks of it: \<^verbatim>\<open>response.status\<close>,
  \<^verbatim>\<open>response.headers.get(name)\<close> (\<open>None\<close> for \<^verbatim>\<open>null\<close>) and \<^verbatim>\<open>response.json()\<close>
  (\<open>None\<close> when the promise rejects: no body, or a body that is not JSON).
\<close>

record Response =
  status :: nat
  headers_get :: "string \<Rightarrow> string option"
  json_result :: "json option"

section \<open>The world: network and timers\<close>

datatype net_reply = Responds Response | Fails string

text \<open>What the network does with one call: after \<open>latency\<close> milliseconds it answers or fails.\<close>

record net_event =
  latency :: nat
  reply :: net_reply

text \<open>The network's behaviour on the \<open>n\<close>-th call of \<^verbatim>\<open>fetch\<close>, given the call's arguments.\<close>

type_synonym network = "nat \<Rightarrow> string \<Rightarrow> RequestInit \<Rightarrow> net_event"

text \<open>An observable effect; the argument of \<open>Sleep\<close> is in milliseconds, \<open>None\<close> when it is
  not a finite number (\<^verbatim>\<open>NaN\<close> or an infinity).\<close>

datatype effect = Fetch string RequestInit | Sleep "int option"

text \<open>
  The world a client acts on: the number of calls of \<^verbatim>\<open>fetch\<close> made so far, and the effects so
  far, oldest first.
\<close>

record world =
  calls :: nat
  trace :: "effect list"

text \<open>
  \<^verbatim>\<open>setTimeout(() => controller.abort(), this.timeout); await fetch(url, fetchOptions)\<close>:
  one more call is made; it is aborted when the timer (\<open>ms\<close> milliseconds) fires no later than
  the network answers, and otherwise resolves with the response or rejects with the network's
  failure.
\<close>

definition fetch :: "network \<Rightarrow> nat \<Rightarrow> string \<Rightarrow> RequestInit \<Rightarrow> world \<Rightarrow> (thrown + Response) \<times> world" where
  "fetch net ms url init w =
     (let ev = net (calls w) url init;
          w' = w\<lparr>calls := calls w + 1, trace := trace w @ [Fetch url init]\<rparr>
      in if ms \<le> latency ev then (Inl AbortError, w')
         else (case reply ev of
                 Responds r \<Rightarrow> (Inr r, w')
               | Fails m \<Rightarrow> (Inl (FetchFailed m), w')))"

text \<open>\<^verbatim>\<open>await this.sleep(ms)\<close>\<close>

definition sleep :: "int option \<Rightarrow> world \<Rightarrow> world" where
  "sleep ms w = w\<lparr>trace := trace w @ [Sleep ms]\<rparr>"

section \<open>Built-ins of the language\<close>

text \<open>
  The Number value of a natural number: itself up to \<open>2 ^ 53\<close>, beyond that the nearest number
  with 53 significant bits (ties to the even one), and \<open>None\<close> for \<^verbatim>\<open>Infinity\<close>.
\<close>

fun bit_length :: "nat \<Rightarrow> nat" where
  "bit_length n = (if n = 0 then 0 else Suc (bit_length (n div 2)))"

declare bit_length.simps [simp del]

definition double_of_nat :: "nat \<Rightarrow> nat option" where
  "double_of_nat n =
     (if n < 2 ^ 53 then Some n
      else (let e = bit_length n - 53; q = n div 2 ^ e; r = n mod 2 ^ e;
                q' = (if 2 ^ e < 2 * r \<or> (2 * r = 2 ^ e \<and> odd q) then q + 1 else q)
            in if q' * 2 ^ e < 2 ^ 1024 then Some (q' * 2 ^ e) else None))"

text \<open>\<^verbatim>\<open>x * 1000\<close> for an integral Number \<open>x\<close>; \<open>None\<close> stays \<open>None\<close>.\<close>

definition times_1000 :: "int option \<Rightarrow> int option" where
  "times_1000 x =
     (case x of
        None \<Rightarrow> None
      | Some n \<Rightarrow> map_option (\<lambda>m. (if n < 0 then - 1 else 1) * int m) (double_of_nat (nat \<bar>n\<bar> * 1000)))"

text \<open>\<^verbatim>\<open>parseInt(s, 10)\<close>: leading white space, an optional sign, then the longest run of
  decimal digits, as a Number; \<open>None\<close> when there is no digit (\<^verbatim>\<open>NaN\<close>) and when the numeral is
  too large for a finite Number. A header value is a byte string, and these are the white
  space characters among the bytes. (The language lets an engine approximate a numeral of more
  than 20 digits; the correctly rounded value is taken here.)\<close>

definition is_space :: "char \<Rightarrow> bool" where
  "is_space c = (c \<in> set [CHR 0x09, CHR 0x0A, CHR 0x0B, CHR 0x0C, CHR 0x0D, CHR '' '', CHR 0xA0])"

definition digit_value :: "char \<Rightarrow> nat option" where
  "digit_value c =
     map_of [(CHR ''0'', 0), (CHR ''1'', 1), (CHR ''2'', 2), (CHR ''3'', 3), (CHR ''4'', 4),
             (CHR ''5'', 5), (CHR ''6'', 6), (CHR ''7'', 7), (CHR ''8'', 8), (CHR ''9'', 9)] c"

definition parseInt :: "string \<Rightarrow> int option" where
  "parseInt s =
     (let s1 = dropWhile is_space s;
          sgn = (case s1 of c # r \<Rightarrow> if c = CHR ''-'' then - 1 else 1 | [] \<Rightarrow> (1::int));
          s2 = (case s1 of c # r \<Rightarrow> if c = CHR ''-'' \<or> c = CHR ''+'' then r else s1 | [] \<Rightarrow> s1);
          ds = takeWhile (\<lambda>c. digit_value c \<noteq> None) s2
      in if ds = [] then None
         else map_option (\<lambda>m. sgn * int m)
                (double_of_nat (foldl (\<lambda>a c. 10 * a + the (digit_value c)) 0 ds)))"

text \<open>The decimal text of a natural number, as a template literal prints an integer.\<close>

fun string_of_nat :: "nat \<Rightarrow> string" where
  "string_of_nat n =
     (if n < 10 then [''0123456789'' ! n]
      else string_of_nat (n div 10) @ [''0123456789'' ! (n mod 10)])"

declare string_of_nat.simps [simp del]

text \<open>\<^verbatim>\<open>responseData.message\<close>: reading a property of \<^verbatim>\<open>null\<close> throws; a value that is not
  an object has no such property (\<open>None\<close> is \<^verbatim>\<open>undefined\<close>).\<close>

fun get_message :: "json \<Rightarrow> thrown + json option" where
  "get_message JNull = Inl (TypeError_null ''message'')"
| "get_message (JObj kvs) = Inr (map_of kvs ''message'')"
| "get_message v = Inr None"

subsection \<open>Conversion to a string\<close>

text \<open>\<^verbatim>\<open>Array.prototype.join\<close> on the texts of the elements.\<close>

fun join :: "string \<Rightarrow> string list \<Rightarrow> string" where
  "join sep [] = []"
| "join sep [s] = s"
| "join sep (s # t # ss) = s @ sep @ join sep (t # ss)"

text \<open>
  \<^verbatim>\<open>ToString\<close> of a parsed JSON value. An array is the join of its elements with commas,
  \<^verbatim>\<open>null\<close> elements giving the empty text. An object is \<^verbatim>\<open>[object Object]\<close>, unless it has a
  member \<^verbatim>\<open>toString\<close> of its own: that member is no function, so the conversion throws a
  \<^verbatim>\<open>TypeError\<close>.
\<close>

fun to_string :: "json \<Rightarrow> thrown + string"
  and element_strings :: "json list \<Rightarrow> thrown + string list" where
  "to_string JNull = Inr ''null''"
| "to_string (JBool b) = Inr (if b then ''true'' else ''false'')"
| "to_string (JNum s) = Inr s"
| "to_string (JStr s) = Inr s"
| "to_string (JArr xs) =
     (case element_strings xs of Inl e \<Rightarrow> Inl e | Inr ss \<Rightarrow> Inr (join '','' ss))"
| "to_string (JObj kvs) =
     (if map_of kvs ''toString'' \<noteq> None then Inl TypeError_primitive else Inr ''[object Object]'')"
| "element_strings [] = Inr []"
| "element_strings (x # xs) =
     (case (case x of JNull \<Rightarrow> Inr [] | _ \<Rightarrow> to_string x) of
        Inl e \<Rightarrow> Inl e
      | Inr s \<Rightarrow> (case element_strings xs of Inl e \<Rightarrow> Inl e | Inr ss \<Rightarrow> Inr (s # ss)))"

subsection \<open>Dates\<close>

text \<open>
  The day number of the first day of a year, counted from 1 January 1970, and the length of a
  year. A year starts its own length of days after the year before, which makes the search
  for the year of a day below stop.
\<close>

definition DayFromYear :: "int \<Rightarrow> int" where
  "DayFromYear y = 365 * (y - 1970) + (y - 1969) div 4 - (y - 1901) div 100 + (y - 1601) div 400"

definition InLeapYear :: "int \<Rightarrow> bool" where
  "InLeapYear y = ((y mod 4 = 0 \<and> y mod 100 \<noteq> 0) \<or> y mod 400 = 0)"

definition DaysInYear :: "int \<Rightarrow> int" where
  "DaysInYear y = (if InLeapYear y then 366 else 365)"

lemma int_div_succ:
  fixes a k :: int
  assumes "0 < k"
  shows "(a + 1) div k = (if (a + 1) mod k = 0 then a div k + 1 else a div k)"
proof -
  define q r where "q = a div k" and "r = a mod k"
  have a: "a = k * q + r" and r: "0 \<le> r" "r < k"
    using assms by (simp_all add: q_def r_def)
  show ?thesis
  proof (cases "r + 1 = k")
    case True
    then have e: "a + 1 = k * (q + 1) + 0"
      using a by (simp add: algebra_simps)
    have "(a + 1) div k = q + 1"
      using assms by (intro int_div_pos_eq [OF e]) simp_all
    moreover have "(a + 1) mod k = 0"
      using assms by (intro int_mod_pos_eq [OF e]) simp_all
    ultimately show ?thesis by (simp add: q_def)
  next
    case False
    then have lt: "r + 1 < k" using r by simp
    have e: "a + 1 = k * q + (r + 1)"
      using a by simp
    have "(a + 1) div k = q"
      using r lt by (intro int_div_pos_eq [OF e]) simp_all
    moreover have "(a + 1) mod k = r + 1"
      using r lt by (intro int_mod_pos_eq [OF e]) simp_all
    ultimately show ?thesis using r by (simp add: q_def)
  qed
qed


lemma mod_shift:
  fixes y :: int
  shows "(y - c * k) mod k = y mod k"
proof -
  have "y - c * k = y + (- c) * k" by simp
  then show ?thesis by (simp only: mod_mult_self1)
qed

lemma DayFromYear_next: "DayFromYear (y + 1) = DayFromYear y + DaysInYear y"
proof -
  have m4: "(y - 1969 + 1) mod 4 = y mod 4"
    using mod_shift [of y 492 4] by (simp add: algebra_simps)
  have m100: "(y - 1901 + 1) mod 100 = y mod 100"
    using mod_shift [of y 19 100] by (simp add: algebra_simps)
  have m400: "(y - 1601 + 1) mod 400 = y mod 400"
    using mod_shift [of y 4 400] by (simp add: algebra_simps)
  have d4: "(y - 1969 + 1) div 4 = (if y mod 4 = 0 then (y - 1969) div 4 + 1 else (y - 1969) div 4)"
    using int_div_succ [of 4 "y - 1969"] m4 by simp
  have d100: "(y - 1901 + 1) div 100 = (if y mod 100 = 0 then (y - 1901) div 100 + 1 else (y - 1901) div 100)"
    using int_div_succ [of 100 "y - 1901"] m100 by simp
  have d400: "(y - 1601 + 1) div 400 = (if y mod 400 = 0 then (y - 1601) div 400 + 1 else (y - 1601) div 400)"
    using int_div_succ [of 400 "y - 1601"] m400 by simp
  have i1: "y mod 100 = 0" if "y mod 400 = 0"
    using mod_mod_cancel [of 100 400 y] that by simp
  have i2: "y mod 4 = 0" if "y mod 100 = 0"
    using mod_mod_cancel [of 4 100 y] that by simp
  have e: "DayFromYear (y + 1) =
      365 * (y - 1970) + 365 + (y - 1969 + 1) div 4 - (y - 1901 + 1) div 100 + (y - 1601 + 1) div 400"
    by (simp add: DayFromYear_def algebra_simps)
  show ?thesis
    unfolding e d4 d100 d400 using i1 i2
    by (auto simp: DayFromYear_def DaysInYear_def InLeapYear_def)
qed

lemma DaysInYear_pos: "365 \<le> DaysInYear y" "DaysInYear y \<le> 366"
  by (simp_all add: DaysInYear_def)

lemma DayFromYear_prev: "DayFromYear (y - 1) = DayFromYear y - DaysInYear (y - 1)"
  using DayFromYear_next [of "y - 1"] by simp

text \<open>
  The year of a day: the largest \<open>y\<close> with \<open>DayFromYear y \<le> d\<close>, found from a first guess
  \<open>y\<close> by stepping down or up.
\<close>

function year_search :: "int \<Rightarrow> int \<Rightarrow> int" where
  "year_search d y =
     (if d < DayFromYear y then year_search d (y - 1)
      else if DayFromYear (y + 1) \<le> d then year_search d (y + 1)
      else y)"
  by pat_completeness auto
termination
proof (relation "measure (\<lambda>(d, y). nat (DayFromYear y - d) + nat (d + 1 - DayFromYear (y + 1)))")
  show "wf (measure (\<lambda>(d, y). nat (DayFromYear y - d) + nat (d + 1 - DayFromYear (y + 1))))"
    by simp
next
  fix d y :: int
  assume a: "d < DayFromYear y"
  have "DayFromYear (y - 1) < DayFromYear y"
    using DayFromYear_prev [of y] DaysInYear_pos(1) [of "y - 1"] by simp
  moreover have "DayFromYear y < DayFromYear (y + 1)"
    using DayFromYear_next [of y] DaysInYear_pos(1) [of y] by simp
  ultimately show "((d, y - 1), (d, y)) \<in>
      measure (\<lambda>(d, y). nat (DayFromYear y - d) + nat (d + 1 - DayFromYear (y + 1)))"
    using a by simp
next
  fix d y :: int
  assume a: "\<not> d < DayFromYear y" "DayFromYear (y + 1) \<le> d"
  have "DayFromYear (y + 1) < DayFromYear (y + 1 + 1)"
    using DayFromYear_next [of "y + 1"] DaysInYear_pos(1) [of "y + 1"] by simp
  then show "((d, y + 1), (d, y)) \<in>
      measure (\<lambda>(d, y). nat (DayFromYear y - d) + nat (d + 1 - DayFromYear (y + 1)))"
    using a by simp
qed

declare year_search.simps [simp del]

text \<open>
  The fields of a time value \<open>t\<close> (milliseconds since 1 January 1970 UTC), as the language
  defines them.
\<close>

definition msPerDay :: int where "msPerDay = 86400000"

definition Day :: "int \<Rightarrow> int" where
  "Day t = t div msPerDay"

definition YearFromTime :: "int \<Rightarrow> int" where
  "YearFromTime t = year_search (Day t) (1970 + Day t div 365)"

definition DayWithinYear :: "int \<Rightarrow> int" where
  "DayWithinYear t = Day t - DayFromYear (YearFromTime t)"

definition MonthFromTime :: "int \<Rightarrow> int" where
  "MonthFromTime t =
     (let d = DayWithinYear t; leap = (if InLeapYear (YearFromTime t) then 1 else 0)
      in if d < 31 then 0
         else if d < 59 + leap then 1
         else if d < 90 + leap then 2
         else if d < 120 + leap then 3
         else if d < 151 + leap then 4
         else if d < 181 + leap then 5
         else if d < 212 + leap then 6
         else if d < 243 + leap then 7
         else if d < 273 + leap then 8
         else if d < 304 + leap then 9
         else if d < 334 + leap then 10
         else 11)"

definition DateFromTime :: "int \<Rightarrow> int" where
  "DateFromTime t =
     (let d = DayWithinYear t; leap = (if InLeapYear (YearFromTime t) then 1 else 0);
          m = MonthFromTime t
      in if m = 0 then d + 1
         else if m = 1 then d - 30
         else if m = 2 then d - 58 - leap
         else if m = 3 then d - 89 - leap
         else if m = 4 then d - 119 - leap
         else if m = 5 then d - 150 - leap
         else if m = 6 then d - 180 - leap
         else if m = 7 then d - 211 - leap
         else if m = 8 then d - 242 - leap
         else if m = 9 then d - 272 - leap
         else if m = 10 then d - 303 - leap
         else d - 333 - leap)"

definition HourFromTime :: "int \<Rightarrow> int" where
  "HourFromTime t = (t div 3600000) mod 24"

definition MinFromTime :: "int \<Rightarrow> int" where
  "MinFromTime t = (t div 60000) mod 60"

definition SecFromTime :: "int \<Rightarrow> int" where
  "SecFromTime t = (t div 1000) mod 60"

definition msFromTime :: "int \<Rightarrow> int" where
  "msFromTime t = t mod 1000"

text \<open>A number padded with zeros on the left to \<open>k\<close> digits.\<close>

definition pad :: "nat \<Rightarrow> nat \<Rightarrow> string" where
  "pad k n = replicate (k - length (string_of_nat n)) (CHR ''0'') @ string_of_nat n"

text \<open>
  \<^verbatim>\<open>Date.prototype.toISOString\<close>: \<^verbatim>\<open>YYYY-MM-DDTHH:mm:ss.sssZ\<close>, with a sign and six digits for a
  year outside 0 to 9999.
\<close>

definition year_text :: "int \<Rightarrow> string" where
  "year_text y =
     (if 0 \<le> y \<and> y \<le> 9999 then pad 4 (nat y)
      else (if 0 \<le> y then ''+'' else ''-'') @ pad 6 (nat \<bar>y\<bar>))"

definition toISOString :: "int \<Rightarrow> string" where
  "toISOString t =
     year_text (YearFromTime t) @ ''-'' @ pad 2 (nat (MonthFromTime t + 1)) @ ''-''
       @ pad 2 (nat (DateFromTime t)) @ ''T'' @ pad 2 (nat (HourFromTime t)) @ '':''
       @ pad 2 (nat (MinFromTime t)) @ '':'' @ pad 2 (nat (SecFromTime t)) @ ''.''
       @ pad 3 (nat (msFromTime t)) @ ''Z''"

text \<open>
  What an ISO 8601 timestamp in UTC is: a year of four digits, or of a sign and six or more
  digits, then \<^verbatim>\<open>-MM-DDTHH:mm:ss.sssZ\<close> with the month in 01 to 12, the day in 01 to 31, the hour
  in 00 to 23, the minute and the second in 00 to 59.
\<close>

definition is_digit :: "char \<Rightarrow> bool" where
  "is_digit c = (digit_value c \<noteq> None)"

definition two_digit_field :: "string \<Rightarrow> nat \<Rightarrow> nat \<Rightarrow> nat \<Rightarrow> bool" where
  "two_digit_field r i lo hi =
     (case (digit_value (r ! i), digit_value (r ! (i + 1))) of
        (Some a, Some b) \<Rightarrow> lo \<le> 10 * a + b \<and> 10 * a + b \<le> hi
      | _ \<Rightarrow> False)"

definition iso_year :: "string \<Rightarrow> bool" where
  "iso_year y =
     ((length y = 4 \<and> list_all is_digit y)
      \<or> (case y of
            [] \<Rightarrow> False
          | c # ds \<Rightarrow> (c = CHR ''+'' \<or> c = CHR ''-'') \<and> 6 \<le> length ds \<and> list_all is_digit ds))"

definition iso8601_utc :: "string \<Rightarrow> bool" where
  "iso8601_utc s =
     (let n = length s - 20; y = take n s; r = drop n s
      in length r = 20 \<and> iso_year y
         \<and> r ! 0 = CHR ''-'' \<and> two_digit_field r 1 1 12
         \<and> r ! 3 = CHR ''-'' \<and> two_digit_field r 4 1 31
         \<and> r ! 6 = CHR ''T'' \<and> two_digit_field r 7 0 23
         \<and> r ! 9 = CHR '':'' \<and> two_digit_field r 10 0 59
         \<and> r ! 12 = CHR '':'' \<and> two_digit_field r 13 0 59
         \<and> r ! 15 = CHR ''.'' \<and> is_digit (r ! 16) \<and> is_digit (r ! 17) \<and> is_digit (r ! 18)
         \<and> r ! 19 = CHR ''Z'')"

section \<open>NotiBoostClient\<close>

text \<open>The constructor. \<^verbatim>\<open>!config.apiKey\<close> holds for an absent and for an empty key; \<^verbatim>\<open>||\<close> takes
  its right operand when the left one is absent, empty or 0. The world is passed through: the
  constructor neither calls \<^verbatim>\<open>fetch\<close> nor sets a timer.\<close>

definition new_NotiBoostClient :: "NotiBoostConfig \<Rightarrow> world \<Rightarrow> (thrown + NotiBoostClient) \<times> world" where
  "new_NotiBoostClient config w =
     (if apiKey config = None \<or> apiKey config = Some [] then (Inl (Error ''API key is required''), w)
      else (Inr \<lparr>this_apiKey = (case apiKey config of Some k \<Rightarrow> k | None \<Rightarrow> []),
                 this_baseURL = (case baseURL config of
                                   None \<Rightarrow> ''https://api.notiboost.com''
                                 | Some u \<Rightarrow> if u = [] then ''https://api.notiboost.com'' else u),
                 this_timeout = (case timeout config of
                                   None \<Rightarrow> 30000
                                 | Some t \<Rightarrow> if t = 0 then 30000 else t),
                 this_retries = (case retries config of
                                   None \<Rightarrow> 3
                                 | Some r \<Rightarrow> if r = 0 then 3 else r)\<rparr>, w))"

text \<open>How a block of the loop's body ends: \<^verbatim>\<open>return\<close>, \<^verbatim>\<open>continue\<close> or \<^verbatim>\<open>throw\<close>.\<close>

datatype completion = Return json | Continue | Throw thrown

text \<open>The \<^verbatim>\<open>fetchOptions\<close> of an attempt: the body is attached only when \<^verbatim>\<open>data\<close> is truthy
  and the method is \<^verbatim>\<open>POST\<close> or \<^verbatim>\<open>PUT\<close>.\<close>

definition fetchOptions :: "string \<Rightarrow> (string \<times> string) list \<Rightarrow> json \<Rightarrow> RequestInit" where
  "fetchOptions method hdrs data =
     \<lparr>init_method = method, init_headers = hdrs,
      init_body = (if truthy data \<and> (method = ''POST'' \<or> method = ''PUT'') then Some data else None)\<rparr>"

text \<open>\<^verbatim>\<open>await response.json().catch(() => ({}))\<close>\<close>

definition responseData :: "Response \<Rightarrow> json" where
  "responseData resp = (case json_result resp of Some v \<Rightarrow> v | None \<Rightarrow> JObj [])"

text \<open>\<^verbatim>\<open>parseInt(response.headers.get('Retry-After') || '1', 10)\<close>\<close>

definition retryAfter :: "Response \<Rightarrow> int option" where
  "retryAfter resp =
     parseInt (case headers_get resp ''Retry-After'' of
                 None \<Rightarrow> ''1''
               | Some s \<Rightarrow> if s = [] then ''1'' else s)"

text \<open>\<^verbatim>\<open>new NotiBoostError(message, statusCode, response)\<close>: \<^verbatim>\<open>super(message)\<close> converts the
  message to a string, which may throw (\<open>Inl\<close>).\<close>

definition new_NotiBoostError :: "json \<Rightarrow> nat \<Rightarrow> json \<Rightarrow> thrown + thrown" where
  "new_NotiBoostError msg code payload =
     (case to_string msg of
        Inl e \<Rightarrow> Inl e
      | Inr s \<Rightarrow> Inr (NotiBoostError (JStr s) code payload))"

text \<open>The body of the \<^verbatim>\<open>try\<close> block of one iteration.\<close>

definition try_block ::
  "NotiBoostClient \<Rightarrow> network \<Rightarrow> string \<Rightarrow> string \<Rightarrow> (string \<times> string) list \<Rightarrow> json \<Rightarrow> nat \<Rightarrow> world
     \<Rightarrow> completion \<times> world" where
  "try_block c net url method hdrs data attempt w =
     (case fetch net (this_timeout c) url (fetchOptions method hdrs data) w of
        (Inl e, w1) \<Rightarrow> (Throw e, w1)
      | (Inr resp, w1) \<Rightarrow>
          if 200 \<le> status resp \<and> status resp < 300 then (Return (responseData resp), w1)
          else if status resp = 429 \<and> attempt < this_retries c then
            (Continue, sleep (times_1000 (retryAfter resp)) w1)
          else (case get_message (responseData resp) of
                  Inl e \<Rightarrow> (Throw e, w1)
                | Inr m \<Rightarrow>
                    (case new_NotiBoostError
                            (case m of
                               None \<Rightarrow> JStr (''HTTP '' @ string_of_nat (status resp))
                             | Some v \<Rightarrow> if truthy v then v
                                         else JStr (''HTTP '' @ string_of_nat (status resp)))
                            (status resp) (responseData resp) of
                       Inl e \<Rightarrow> (Throw e, w1)
                     | Inr err \<Rightarrow> (Throw err, w1))))"

text \<open>The \<^verbatim>\<open>catch\<close> block, entered with what the \<^verbatim>\<open>try\<close> block threw.\<close>

definition catch_block :: "NotiBoostClient \<Rightarrow> nat \<Rightarrow> thrown \<Rightarrow> world \<Rightarrow> completion \<times> world" where
  "catch_block c attempt error w =
     (if attempt < this_retries c \<and> \<not> instanceof_NotiBoostError error
      then (Continue, sleep (Some (2 ^ attempt * 1000)) w)
      else (Throw error, w))"

text \<open>The \<^verbatim>\<open>for\<close> loop of \<^verbatim>\<open>request\<close>, from a given attempt on; the last line is the
  \<^verbatim>\<open>throw lastError\<close> after the loop.\<close>

function attempt_loop ::
  "NotiBoostClient \<Rightarrow> network \<Rightarrow> string \<Rightarrow> string \<Rightarrow> (string \<times> string) list \<Rightarrow> json \<Rightarrow> nat \<Rightarrow> thrown
     \<Rightarrow> world \<Rightarrow> (thrown + json) \<times> world" where
  "attempt_loop c net url method hdrs data attempt lastError w =
     (if attempt \<le> this_retries c then
        (case try_block c net url method hdrs data attempt w of
           (Return v, w1) \<Rightarrow> (Inr v, w1)
         | (Continue, w1) \<Rightarrow> attempt_loop c net url method hdrs data (attempt + 1) lastError w1
         | (Throw e, w1) \<Rightarrow>
             (case catch_block c attempt e w1 of
                (Continue, w2) \<Rightarrow> attempt_loop c net url method hdrs data (attempt + 1) e w2
              | (Throw e', w2) \<Rightarrow> (Inl e', w2)
              | (Return v, w2) \<Rightarrow> (Inr v, w2)))
      else (Inl lastError, w))"
  by pat_completeness auto
termination
  by (relation "measure (\<lambda>(c, net, url, method, hdrs, data, attempt, lastError, w). this_retries c + 1 - attempt)") auto

declare attempt_loop.simps [simp del]

text \<open>\<^verbatim>\<open>{...defaults, ...options.headers}\<close>: a header of the caller replaces the default of the
  same name in its place, and a new one is added at the end.\<close>

definition merge_headers :: "(string \<times> string) list \<Rightarrow> RequestOptions \<Rightarrow> (string \<times> string) list" where
  "merge_headers base options =
     (case headers options of
        None \<Rightarrow> base
      | Some extra \<Rightarrow> fold (\<lambda>(k, v). AList.update k v) extra base)"

definition request ::
  "NotiBoostClient \<Rightarrow> network \<Rightarrow> string \<Rightarrow> string \<Rightarrow> json \<Rightarrow> RequestOptions \<Rightarrow> world
     \<Rightarrow> (thrown + json) \<times> world" where
  "request c net method path data options w =
     (let url = this_baseURL c @ path;
          hdrs = merge_headers [(''Authorization'', ''Bearer '' @ this_apiKey c),
                                (''Content-Type'', ''application/json'')] options
      in attempt_loop c net url method hdrs data 0 Undefined w)"

section \<open>EventsClient\<close>

text \<open>
  \<open>now\<close> is the time value \<^verbatim>\<open>new Date()\<close> reads from the clock at the call; \<open>options\<close> is
  \<open>None\<close> when the caller gives none. \<^verbatim>\<open>!event.occurred_at\<close> holds when the member is absent or
  falsy; the assignment replaces the member where it stands, or adds it after the others. The
  body is \<^verbatim>\<open>JSON.stringify\<close> of the event after the assignment.
\<close>

definition ingest ::
  "NotiBoostClient \<Rightarrow> network \<Rightarrow> int \<Rightarrow> Event \<Rightarrow> RequestOptions option \<Rightarrow> world
     \<Rightarrow> (thrown + json) \<times> world" where
  "ingest c net now event options w =
     (let event' = (case map_of event ''occurred_at'' of
                      None \<Rightarrow> AList.update ''occurred_at'' (JStr (toISOString now)) event
                    | Some v \<Rightarrow> if truthy v then event
                                else AList.update ''occurred_at'' (JStr (toISOString now)) event)
      in request c net ''POST'' ''/api/v1/events'' (JObj event')
           (case options of None \<Rightarrow> \<lparr>headers = None\<rparr> | Some opts \<Rightarrow> opts) w)"

section \<open>Scenarios\<close>

text \<open>Concrete clients, networks and events on which the results below are instantiated.\<close>

definition world0 :: world where
  "world0 = \<lparr>calls = 0, trace = []\<rparr>"

definition default_client :: NotiBoostClient where
  "default_client =
     \<lparr>this_apiKey = ''sk_test'', this_baseURL = ''https://api.notiboost.com'',
      this_timeout = 30000, this_retries = 3\<rparr>"

definition single_retry_client :: NotiBoostClient where
  "single_retry_client =
     \<lparr>this_apiKey = ''sk_test'', this_baseURL = ''https://api.notiboost.com'',
      this_timeout = 30000, this_retries = 1\<rparr>"

definition default_headers :: "(string \<times> string) list" where
  "default_headers = [(''Authorization'', ''Bearer sk_test''), (''Content-Type'', ''application/json'')]"

text \<open>A response that arrives after 20 ms.\<close>

definition answer :: "nat \<Rightarrow> (string \<Rightarrow> string option) \<Rightarrow> json option \<Rightarrow> net_event" where
  "answer st hs b = \<lparr>latency = 20, reply = Responds \<lparr>status = st, headers_get = hs, json_result = b\<rparr>\<rparr>"

definition no_headers :: "string \<Rightarrow> string option" where
  "no_headers name = None"

definition retry_after_header :: "string \<Rightarrow> string \<Rightarrow> string option" where
  "retry_after_header v name = (if name = ''Retry-After'' then Some v else None)"

definition ok_body :: json where
  "ok_body = JObj [(''success'', JBool True), (''trace_id'', JStr ''trc_abc123''), (''event_id'', JStr ''evt_001'')]"

text \<open>A server that answers every call with the same status and body.\<close>

definition net_always :: "nat \<Rightarrow> json option \<Rightarrow> network" where
  "net_always st b n url fo = answer st no_headers b"

text \<open>A server that rate-limits the first call with the given \<^verbatim>\<open>Retry-After\<close> and then succeeds.\<close>

definition net_limited_once :: "string \<Rightarrow> network" where
  "net_limited_once v n url fo =
     (if n = 0 then answer 429 (retry_after_header v) None else answer 200 no_headers (Some ok_body))"

text \<open>A server whose first answer takes 45 s, longer than the default timeout.\<close>

definition net_slow_once :: network where
  "net_slow_once n url fo =
     (if n = 0 then \<lparr>latency = 45000, reply = Responds \<lparr>status = 200, headers_get = no_headers, json_result = Some ok_body\<rparr>\<rparr>
      else answer 200 no_headers (Some ok_body))"

text \<open>A network that is down for the first call; afterwards the server answers with the given
  status and body.\<close>

definition net_down_once :: "nat \<Rightarrow> json option \<Rightarrow> network" where
  "net_down_once st b n url fo =
     (if n = 0 then \<lparr>latency = 3, reply = Fails ''Failed to fetch''\<rparr> else answer st no_headers b)"

text \<open>A network that is always down.\<close>

definition net_down :: network where
  "net_down n url fo = \<lparr>latency = 3, reply = Fails ''Failed to fetch''\<rparr>"

text \<open>An event given without \<^verbatim>\<open>occurred_at\<close>, and the time value of 2024-05-01T10:00:00.000Z.\<close>

definition order_created :: Event where
  "order_created =
     [(''event_name'', JStr ''order_created''), (''event_id'', JStr ''evt_001''),
      (''user_id'', JStr ''u_123''),
      (''properties'', JObj [(''order_id'', JStr ''A001''), (''amount'', JNum ''350000'')])]"

definition may_1st :: int where
  "may_1st = 1714557600000"

section \<open>Properties of the language built-ins\<close>

text \<open>\<open>parseInt\<close> reads back the decimal text of a natural number below \<open>2 ^ 53\<close>, and
  multiplying by 1000 is exact as long as the product is below \<open>2 ^ 53\<close>.\<close>

lemma digit_value_nth:
  assumes "d < 10"
  shows "digit_value (''0123456789'' ! d) = Some d"
proof -
  from assms have "d = 0 \<or> d = 1 \<or> d = 2 \<or> d = 3 \<or> d = 4 \<or> d = 5 \<or> d = 6 \<or> d = 7 \<or> d = 8 \<or> d = 9"
    by arith
  then show ?thesis
    by (elim disjE) (simp_all add: digit_value_def)
qed

lemma digit_not_space: "digit_value ch = Some d \<Longrightarrow> \<not> is_space ch \<and> ch \<noteq> CHR ''-'' \<and> ch \<noteq> CHR ''+''"
  by (auto simp: digit_value_def is_space_def split: if_splits)

lemma string_of_nat_digits:
  "string_of_nat n \<noteq> [] \<and> (\<forall>ch \<in> set (string_of_nat n). digit_value ch \<noteq> None)"
proof (induction n rule: string_of_nat.induct)
  case (1 n)
  show ?case
  proof (cases "n < 10")
    case True
    then show ?thesis
      by (subst (1 2) string_of_nat.simps) (simp add: digit_value_nth)
  next
    case False
    then show ?thesis
      using "1.IH" by (subst (1 2) string_of_nat.simps) (simp add: digit_value_nth)
  qed
qed

lemma string_of_nat_value:
  "foldl (\<lambda>a ch. 10 * a + the (digit_value ch)) 0 (string_of_nat n) = n"
proof (induction n rule: string_of_nat.induct)
  case (1 n)
  show ?case
  proof (cases "n < 10")
    case True
    then show ?thesis
      by (subst string_of_nat.simps) (simp add: digit_value_nth)
  next
    case False
    then show ?thesis
      using "1.IH" by (subst string_of_nat.simps) (simp add: digit_value_nth)
  qed
qed

lemma double_of_nat_exact: "n < 2 ^ 53 \<Longrightarrow> double_of_nat n = Some n"
  by (simp add: double_of_nat_def)

lemma times_1000_exact: "n * 1000 < 2 ^ 53 \<Longrightarrow> times_1000 (Some (int n)) = Some (int n * 1000)"
  by (simp add: times_1000_def double_of_nat_exact)

lemma parseInt_string_of_nat:
  assumes "n < 2 ^ 53"
  shows "parseInt (string_of_nat n) = Some (int n)"
proof -
  obtain ch r where s: "string_of_nat n = ch # r"
    using string_of_nat_digits [of n] by (cases "string_of_nat n") auto
  have all: "\<forall>x \<in> set (ch # r). digit_value x \<noteq> None"
    using string_of_nat_digits [of n] s by simp
  then obtain d where "digit_value ch = Some d" by auto
  then have ns: "\<not> is_space ch" "ch \<noteq> CHR ''-''" "ch \<noteq> CHR ''+''"
    using digit_not_space by blast+
  have tw: "takeWhile (\<lambda>c. digit_value c \<noteq> None) (ch # r) = ch # r"
    using all by (subst takeWhile_eq_all_conv) blast
  have "parseInt (ch # r) =
      map_option (\<lambda>m. int m) (double_of_nat (foldl (\<lambda>a c. 10 * a + the (digit_value c)) 0 (ch # r)))"
    unfolding parseInt_def by (simp add: Let_def ns tw del: not_None_eq takeWhile.simps foldl_Cons)
  then show ?thesis
    using string_of_nat_value [of n] s assms by (simp add: double_of_nat_exact)
qed

subsection \<open>The text of a date\<close>

lemma year_search_bounds:
  "DayFromYear (year_search d y) \<le> d \<and> d < DayFromYear (year_search d y + 1)"
proof (induction d y rule: year_search.induct)
  case (1 d y)
  show ?case
  proof (cases "d < DayFromYear y")
    case True
    then show ?thesis using "1.IH"(1) by (subst (1 2) year_search.simps) simp
  next
    case False
    show ?thesis
    proof (cases "DayFromYear (y + 1) \<le> d")
      case True
      then show ?thesis using False "1.IH"(2) by (subst (1 2) year_search.simps) simp
    next
      case False
      then show ?thesis using \<open>\<not> d < DayFromYear y\<close> by (subst (1 2) year_search.simps) simp
    qed
  qed
qed

lemma DayWithinYear_bounds:
  "0 \<le> DayWithinYear t" "DayWithinYear t < DaysInYear (YearFromTime t)"
  using year_search_bounds [of "Day t" "1970 + Day t div 365"]
        DayFromYear_next [of "YearFromTime t"]
  by (simp_all add: DayWithinYear_def YearFromTime_def)

lemma MonthFromTime_bounds: "0 \<le> MonthFromTime t" "MonthFromTime t \<le> 11"
  by (simp_all add: MonthFromTime_def Let_def)

lemma DateFromTime_bounds: "1 \<le> DateFromTime t" "DateFromTime t \<le> 31"
  using DayWithinYear_bounds [of t]
  by (auto simp: DateFromTime_def MonthFromTime_def DaysInYear_def Let_def split: if_splits)

lemma string_of_nat_small: "n < 10 \<Longrightarrow> string_of_nat n = [''0123456789'' ! n]"
  by (subst string_of_nat.simps) simp

lemma string_of_nat_large:
  "10 \<le> n \<Longrightarrow> string_of_nat n = string_of_nat (n div 10) @ [''0123456789'' ! (n mod 10)]"
  by (subst string_of_nat.simps) simp

lemma replicate_two: "replicate 2 c = [c, c]"
  by (simp add: numeral_2_eq_2)

lemma pad2: 
  assumes "n < 100"
  shows "pad 2 n = [''0123456789'' ! (n div 10), ''0123456789'' ! (n mod 10)]"
proof (cases "n < 10")
  case True
  then show ?thesis by (simp add: pad_def string_of_nat_small replicate_two)
next
  case False
  then have "n div 10 < 10" using assms by simp
  then show ?thesis using False by (simp add: pad_def string_of_nat_large string_of_nat_small)
qed

lemma pad3:
  assumes "n < 1000"
  shows "pad 3 n = [''0123456789'' ! (n div 100), ''0123456789'' ! (n div 10 mod 10), ''0123456789'' ! (n mod 10)]"
proof (cases "n < 10")
  case True
  then show ?thesis by (simp add: pad_def string_of_nat_small replicate_two)
next
  case False
  show ?thesis
  proof (cases "n < 100")
    case True
    then have "n div 10 < 10" by simp
    then show ?thesis using \<open>\<not> n < 10\<close> True
      by (simp add: pad_def string_of_nat_large string_of_nat_small replicate_two)
  next
    case False
    then have a: "10 \<le> n" "10 \<le> n div 10" "n div 10 div 10 < 10" using assms by simp_all
    have "n div 10 div 10 = n div 100" by (simp add: div_mult2_eq)
    then show ?thesis using a
      by (simp add: pad_def string_of_nat_large [of n] string_of_nat_large [of "n div 10"] string_of_nat_small)
  qed
qed

lemma length_string_of_nat: "0 < k \<Longrightarrow> n < 10 ^ k \<Longrightarrow> length (string_of_nat n) \<le> k"
proof (induction n arbitrary: k rule: string_of_nat.induct)
  case (1 n)
  show ?case
  proof (cases "n < 10")
    case True
    then show ?thesis using "1.prems" by (simp add: string_of_nat_small)
  next
    case False
    then obtain j where k: "k = Suc j" and j: "0 < j"
      using "1.prems" by (cases k; cases "k - 1") auto
    have "n div 10 < 10 ^ j"
      using "1.prems"(2) k by (simp add: less_mult_imp_div_less mult.commute)
    from "1.IH" [OF False j this] show ?thesis
      using False k by (simp add: string_of_nat_large)
  qed
qed

lemma pad_digits: "list_all is_digit (pad k n)"
proof -
  have "is_digit (CHR ''0'')"
    by (simp add: is_digit_def digit_value_def)
  moreover have "\<forall>ch \<in> set (string_of_nat n). is_digit ch"
    using string_of_nat_digits [of n] by (simp add: is_digit_def)
  ultimately show ?thesis
    by (auto simp: pad_def list_all_iff)
qed

lemma length_pad: "length (pad k n) = max k (length (string_of_nat n))"
  by (simp add: pad_def)

lemma iso_year_text: "iso_year (year_text y)"
proof (cases "0 \<le> y \<and> y \<le> 9999")
  case True
  then have "nat y < 10000" by arith
  then have "nat y < 10 ^ 4" by simp
  then have "length (string_of_nat (nat y)) \<le> 4"
    by (intro length_string_of_nat) simp_all
  then have "length (pad 4 (nat y)) = 4"
    by (simp add: length_pad)
  then show ?thesis using True
    by (simp add: iso_year_def year_text_def pad_digits)
next
  case False
  have "6 \<le> length (pad 6 (nat \<bar>y\<bar>))"
    by (simp add: length_pad)
  then have "iso_year (c # pad 6 (nat \<bar>y\<bar>))" if "c = CHR ''+'' \<or> c = CHR ''-''" for c
    using that by (simp add: iso_year_def pad_digits)
  then show ?thesis using False
    by (cases "0 \<le> y") (simp_all add: year_text_def)
qed

lemma digit_field:
  assumes "n < 100" and "lo \<le> n" and "n \<le> hi"
      and "r ! i = ''0123456789'' ! (n div 10)" and "r ! (i + 1) = ''0123456789'' ! (n mod 10)"
  shows "two_digit_field r i lo hi"
proof -
  have "n div 10 < 10" "n mod 10 < 10" using assms(1) by simp_all
  then have "digit_value (r ! i) = Some (n div 10)" "digit_value (r ! (i + 1)) = Some (n mod 10)"
    using assms(4,5) by (simp_all add: digit_value_nth)
  then show ?thesis using assms(2,3) by (simp add: two_digit_field_def)
qed

lemma is_digit_nth: "k < 10 \<Longrightarrow> is_digit (''0123456789'' ! k)"
  by (simp add: is_digit_def digit_value_nth)

lemma time_fields:
  "0 \<le> HourFromTime t" "HourFromTime t \<le> 23"
  "0 \<le> MinFromTime t" "MinFromTime t \<le> 59"
  "0 \<le> SecFromTime t" "SecFromTime t \<le> 59"
  "0 \<le> msFromTime t" "msFromTime t \<le> 999"
  unfolding HourFromTime_def MinFromTime_def SecFromTime_def msFromTime_def
  using pos_mod_bound [of 24 "t div 3600000"] pos_mod_bound [of 60 "t div 60000"]
        pos_mod_bound [of 60 "t div 1000"] pos_mod_bound [of 1000 t]
  by simp_all

lemma toISOString_format: "iso8601_utc (toISOString t)"
proof -
  define mo where "mo = nat (MonthFromTime t + 1)"
  define da where "da = nat (DateFromTime t)"
  define ho where "ho = nat (HourFromTime t)"
  define mi where "mi = nat (MinFromTime t)"
  define se where "se = nat (SecFromTime t)"
  define ms where "ms = nat (msFromTime t)"
  define Y where "Y = year_text (YearFromTime t)"
  define r where "r = [CHR ''-'', ''0123456789'' ! (mo div 10), ''0123456789'' ! (mo mod 10),
                       CHR ''-'', ''0123456789'' ! (da div 10), ''0123456789'' ! (da mod 10),
                       CHR ''T'', ''0123456789'' ! (ho div 10), ''0123456789'' ! (ho mod 10),
                       CHR '':'', ''0123456789'' ! (mi div 10), ''0123456789'' ! (mi mod 10),
                       CHR '':'', ''0123456789'' ! (se div 10), ''0123456789'' ! (se mod 10),
                       CHR ''.'', ''0123456789'' ! (ms div 100), ''0123456789'' ! (ms div 10 mod 10),
                       ''0123456789'' ! (ms mod 10), CHR ''Z'']"
  have mo: "1 \<le> mo" "mo \<le> 12"
    using MonthFromTime_bounds [of t] by (simp_all add: mo_def)
  have da: "1 \<le> da" "da \<le> 31"
    using DateFromTime_bounds [of t] by (simp_all add: da_def)
  have ho: "ho \<le> 23" and mi: "mi \<le> 59" and se: "se \<le> 59" and ms: "ms \<le> 999"
    using time_fields [of t] by (simp_all add: ho_def mi_def se_def ms_def)
  have s: "toISOString t = Y @ r"
    using mo da ho mi se ms
    by (simp add: toISOString_def pad2 pad3 Y_def r_def
          mo_def [symmetric] da_def [symmetric] ho_def [symmetric] mi_def [symmetric]
          se_def [symmetric] ms_def [symmetric])
  have len: "length r = 20"
    by (simp add: r_def)
  have split: "take (length (Y @ r) - 20) (Y @ r) = Y" "drop (length (Y @ r) - 20) (Y @ r) = r"
    using len by simp_all
  have f1: "two_digit_field r 1 1 12"
    using mo by (intro digit_field [of mo]) (simp_all add: r_def)
  have f2: "two_digit_field r 4 1 31"
    using da by (intro digit_field [of da]) (simp_all add: r_def)
  have f3: "two_digit_field r 7 0 23"
    using ho by (intro digit_field [of ho]) (simp_all add: r_def)
  have f4: "two_digit_field r 10 0 59"
    using mi by (intro digit_field [of mi]) (simp_all add: r_def)
  have f5: "two_digit_field r 13 0 59"
    using se by (intro digit_field [of se]) (simp_all add: r_def)
  have "ms div 100 < 10" "ms div 10 mod 10 < 10" "ms mod 10 < 10"
    using ms by simp_all
  then have f6: "is_digit (r ! 16)" "is_digit (r ! 17)" "is_digit (r ! 18)"
    by (simp_all add: r_def is_digit_nth)
  have seps: "r ! 0 = CHR ''-''" "r ! 3 = CHR ''-''" "r ! 6 = CHR ''T''" "r ! 9 = CHR '':''"
      "r ! 12 = CHR '':''" "r ! 15 = CHR ''.''" "r ! 19 = CHR ''Z''"
    by (simp_all add: r_def)
  have "iso_year Y"
    unfolding Y_def by (rule iso_year_text)
  then show ?thesis
    unfolding s iso8601_utc_def Let_def split
    using len f1 f2 f3 f4 f5 f6 seps by simp
qed

lemma toISOString_nonempty: "toISOString t \<noteq> []"
  by (simp add: toISOString_def)

section \<open>One iteration of the retry loop\<close>

text \<open>A call of \<^verbatim>\<open>fetch\<close> is recorded in the world whatever its outcome, and what it rejects
  with is never a \<open>NotiBoostError\<close>.\<close>

lemma fetch_world:
  "fetch net ms url fo w = (r, w1) \<Longrightarrow> w1 = w\<lparr>calls := calls w + 1, trace := trace w @ [Fetch url fo]\<rparr>"
  by (auto simp: fetch_def Let_def split: if_splits net_reply.splits)

lemma fetch_rejection:
  "fetch net ms url fo w = (Inl e, w1) \<Longrightarrow> e = AbortError \<or> (\<exists>m. e = FetchFailed m)"
  by (auto simp: fetch_def Let_def split: if_splits net_reply.splits)

lemma fetch_timeout:
  "ms \<le> latency (net (calls w) url fo) \<Longrightarrow> fst (fetch net ms url fo w) = Inl AbortError"
  by (simp add: fetch_def Let_def)

text \<open>The loop unfolded once, by how the \<^verbatim>\<open>try\<close> block ends.\<close>

lemma loop_step_return:
  "attempt \<le> this_retries c \<Longrightarrow> try_block c net url method hdrs data attempt w = (Return v, w1) \<Longrightarrow>
   attempt_loop c net url method hdrs data attempt lastError w = (Inr v, w1)"
  by (subst attempt_loop.simps) simp

lemma loop_step_continue:
  "attempt \<le> this_retries c \<Longrightarrow> try_block c net url method hdrs data attempt w = (Continue, w1) \<Longrightarrow>
   attempt_loop c net url method hdrs data attempt lastError w =
     attempt_loop c net url method hdrs data (attempt + 1) lastError w1"
  by (subst attempt_loop.simps) simp

lemma loop_step_caught_retry:
  "attempt < this_retries c \<Longrightarrow> try_block c net url method hdrs data attempt w = (Throw e, w1) \<Longrightarrow>
   \<not> instanceof_NotiBoostError e \<Longrightarrow>
   attempt_loop c net url method hdrs data attempt lastError w =
     attempt_loop c net url method hdrs data (attempt + 1) e (sleep (Some (2 ^ attempt * 1000)) w1)"
  by (subst attempt_loop.simps) (simp add: catch_block_def)

lemma loop_step_rethrow:
  "attempt \<le> this_retries c \<Longrightarrow> try_block c net url method hdrs data attempt w = (Throw e, w1) \<Longrightarrow>
   attempt = this_retries c \<or> instanceof_NotiBoostError e \<Longrightarrow>
   attempt_loop c net url method hdrs data attempt lastError w = (Inl e, w1)"
  by (subst attempt_loop.simps) (auto simp add: catch_block_def)


text \<open>
  What a run adds to the world: an iteration makes exactly one call of \<^verbatim>\<open>fetch\<close>, with the URL
  and options of the request, possibly followed by a sleep; so the loop from \<open>attempt\<close> on
  makes at most \<open>retries + 1 - attempt\<close> calls.
\<close>

lemma try_block_effects:
  assumes "try_block c net url method hdrs data attempt w = (k, w1)"
  shows "calls w1 = calls w + 1 \<and>
         (\<exists>s. trace w1 = trace w @ Fetch url (fetchOptions method hdrs data) # s \<and> set s \<subseteq> range Sleep)"
proof -
  obtain r w0 where f: "fetch net (this_timeout c) url (fetchOptions method hdrs data) w = (r, w0)"
    by force
  have w0: "w0 = w\<lparr>calls := calls w + 1, trace := trace w @ [Fetch url (fetchOptions method hdrs data)]\<rparr>"
    using f by (rule fetch_world)
  have "w1 = w0 \<or> (\<exists>ms. w1 = sleep ms w0)"
    using assms f by (auto simp: try_block_def split: sum.splits if_splits)
  then show ?thesis
    using w0 by (auto simp: sleep_def)
qed

lemma catch_block_effects:
  assumes "catch_block c attempt e w = (k, w1)"
  shows "calls w1 = calls w \<and> (\<exists>s. trace w1 = trace w @ s \<and> set s \<subseteq> range Sleep)"
  using assms by (auto simp: catch_block_def sleep_def split: if_splits)

lemma attempt_loop_effects:
  "\<exists>s. trace (snd (attempt_loop c net url meth hdrs data attempt lastError w)) = trace w @ s
       \<and> set s \<subseteq> insert (Fetch url (fetchOptions meth hdrs data)) (range Sleep)
       \<and> calls (snd (attempt_loop c net url meth hdrs data attempt lastError w))
           = calls w + length (filter (\<lambda>x. x = Fetch url (fetchOptions meth hdrs data)) s)
       \<and> calls (snd (attempt_loop c net url meth hdrs data attempt lastError w))
           \<le> calls w + (this_retries c + 1 - attempt)"
  (is "?P attempt lastError w")
proof (induction c net url meth hdrs data attempt lastError w rule: attempt_loop.induct)
  case (1 c net url meth hdrs data attempt lastError w)
  let ?fo = "fetchOptions meth hdrs data"
  let ?ok = "\<lambda>a le w0 w'. \<exists>s. trace w' = trace w0 @ s
       \<and> set s \<subseteq> insert (Fetch url ?fo) (range Sleep)
       \<and> calls w' = calls w0 + length (filter (\<lambda>x. x = Fetch url ?fo) s)
       \<and> calls w' \<le> calls w0 + (this_retries c + 1 - a)"
  show ?case
  proof (cases "attempt \<le> this_retries c")
    case False
    then have "attempt_loop c net url meth hdrs data attempt lastError w = (Inl lastError, w)"
      by (subst attempt_loop.simps) simp
    then show ?thesis by simp
  next
    case True
    obtain k w1 where tb: "try_block c net url meth hdrs data attempt w = (k, w1)"
      by force
    from try_block_effects [OF tb] obtain s1 where
      c1: "calls w1 = calls w + 1" and
      t1: "trace w1 = trace w @ Fetch url ?fo # s1" and s1: "set s1 \<subseteq> range Sleep"
      by blast
    have f1: "filter (\<lambda>x. x = Fetch url ?fo) s1 = []"
      using s1 by (auto simp: filter_empty_conv)
    have done1: "?ok attempt lastError w w1"
      using c1 t1 s1 f1 True by (intro exI [of _ "Fetch url ?fo # s1"]) auto
    show ?thesis
    proof (cases k)
      case (Return v)
      then have "attempt_loop c net url meth hdrs data attempt lastError w = (Inr v, w1)"
        using True tb by (simp add: loop_step_return)
      then show ?thesis using done1 by simp
    next
      case Continue
      then have eq: "attempt_loop c net url meth hdrs data attempt lastError w =
          attempt_loop c net url meth hdrs data (attempt + 1) lastError w1"
        using True tb by (simp add: loop_step_continue)
      from "1.IH"(1) [OF True tb [symmetric, unfolded Continue] refl]
      obtain s2 where
        t2: "trace (snd (attempt_loop c net url meth hdrs data (attempt + 1) lastError w1)) = trace w1 @ s2"
        and s2: "set s2 \<subseteq> insert (Fetch url ?fo) (range Sleep)"
        and c2: "calls (snd (attempt_loop c net url meth hdrs data (attempt + 1) lastError w1))
                   = calls w1 + length (filter (\<lambda>x. x = Fetch url ?fo) s2)"
        and b2: "calls (snd (attempt_loop c net url meth hdrs data (attempt + 1) lastError w1))
                   \<le> calls w1 + (this_retries c + 1 - (attempt + 1))"
        by blast
      show ?thesis
        unfolding eq using t1 s1 f1 c1 t2 s2 c2 b2 True
        by (intro exI [of _ "Fetch url ?fo # s1 @ s2"]) auto
    next
      case (Throw e)
      obtain k2 w2 where cb: "catch_block c attempt e w1 = (k2, w2)"
        by force
      from catch_block_effects [OF cb] obtain s1' where
        c1': "calls w2 = calls w1" and t1': "trace w2 = trace w1 @ s1'" and s1': "set s1' \<subseteq> range Sleep"
        by blast
      have f1': "filter (\<lambda>x. x = Fetch url ?fo) s1' = []"
        using s1' by (auto simp: filter_empty_conv)
      show ?thesis
      proof (cases k2)
        case (Return v)
        then show ?thesis using cb by (auto simp: catch_block_def split: if_splits)
      next
        case Continue
        have eq: "attempt_loop c net url meth hdrs data attempt lastError w =
            attempt_loop c net url meth hdrs data (attempt + 1) e w2"
          using True tb cb Throw Continue by (subst attempt_loop.simps) simp
        from "1.IH"(2) [OF True tb [symmetric, unfolded Throw] refl cb [symmetric, unfolded Continue] refl]
        obtain s2 where
          t2: "trace (snd (attempt_loop c net url meth hdrs data (attempt + 1) e w2)) = trace w2 @ s2"
          and s2: "set s2 \<subseteq> insert (Fetch url ?fo) (range Sleep)"
          and c2: "calls (snd (attempt_loop c net url meth hdrs data (attempt + 1) e w2))
                     = calls w2 + length (filter (\<lambda>x. x = Fetch url ?fo) s2)"
          and b2: "calls (snd (attempt_loop c net url meth hdrs data (attempt + 1) e w2))
                     \<le> calls w2 + (this_retries c + 1 - (attempt + 1))"
          by blast
        show ?thesis
          unfolding eq using t1 s1 f1 c1 t1' s1' f1' c1' t2 s2 c2 b2 True
          by (intro exI [of _ "Fetch url ?fo # s1 @ s1' @ s2"]) auto
      next
        case (Throw e')
        have eq: "attempt_loop c net url meth hdrs data attempt lastError w = (Inl e', w2)"
          using True tb cb \<open>k = Throw e\<close> Throw by (subst attempt_loop.simps) simp
        show ?thesis
          unfolding eq using t1 s1 f1 c1 t1' s1' f1' c1' True
          by (intro exI [of _ "Fetch url ?fo # s1 @ s1'"]) auto
      qed
    qed
  qed
qed

lemma loop_first_fetch:
  assumes "attempt \<le> this_retries c"
  shows "\<exists>rest. trace (snd (attempt_loop c net url method hdrs data attempt lastError w)) =
           trace w @ Fetch url (fetchOptions method hdrs data) # rest"
proof -
  obtain k w1 where tb: "try_block c net url method hdrs data attempt w = (k, w1)"
    by force
  from try_block_effects [OF tb] obtain s1 where
    t1: "trace w1 = trace w @ Fetch url (fetchOptions method hdrs data) # s1"
    by blast
  have ext: "\<exists>s. trace (snd (attempt_loop c net url method hdrs data a le w')) = trace w' @ s" for a le w'
    using attempt_loop_effects [of c net url _ hdrs data a le w'] by blast
  show ?thesis
  proof (cases k)
    case (Return v)
    then show ?thesis
      using assms tb t1 by (simp add: loop_step_return)
  next
    case Continue
    then have "attempt_loop c net url method hdrs data attempt lastError w =
        attempt_loop c net url method hdrs data (attempt + 1) lastError w1"
      using assms tb by (simp add: loop_step_continue)
    then show ?thesis
      using ext [of "attempt + 1" lastError w1] t1 by auto
  next
    case (Throw e)
    show ?thesis
    proof (cases "attempt < this_retries c \<and> \<not> instanceof_NotiBoostError e")
      case True
      then have "attempt_loop c net url method hdrs data attempt lastError w =
          attempt_loop c net url method hdrs data (attempt + 1) e (sleep (Some (2 ^ attempt * 1000)) w1)"
        using tb Throw by (simp add: loop_step_caught_retry)
      then show ?thesis
        using ext [of "attempt + 1" e "sleep (Some (2 ^ attempt * 1000)) w1"] t1
        by (auto simp: sleep_def)
    next
      case False
      then have "attempt_loop c net url method hdrs data attempt lastError w = (Inl e, w1)"
        using assms tb Throw by (intro loop_step_rethrow) auto
      then show ?thesis
        using t1 by simp
    qed
  qed
qed

text \<open>The \<^verbatim>\<open>try\<close> block, by the outcome of its \<^verbatim>\<open>fetch\<close>.\<close>

lemma try_block_success:
  assumes "fetch net (this_timeout c) url (fetchOptions method hdrs data) w = (Inr resp, w1)"
      and "200 \<le> status resp" and "status resp < 300"
  shows "try_block c net url method hdrs data attempt w = (Return (responseData resp), w1)"
  using assms by (simp add: try_block_def)

lemma try_block_rate_limited:
  assumes "fetch net (this_timeout c) url (fetchOptions method hdrs data) w = (Inr resp, w1)"
      and "status resp = 429" and "attempt < this_retries c"
  shows "try_block c net url method hdrs data attempt w =
           (Continue, sleep (times_1000 (retryAfter resp)) w1)"
  using assms by (simp add: try_block_def)

lemma try_block_rejected:
  assumes "fetch net (this_timeout c) url (fetchOptions method hdrs data) w = (Inl e, w1)"
  shows "try_block c net url method hdrs data attempt w = (Throw e, w1)"
  using assms by (simp add: try_block_def)

lemma try_block_api_error:
  assumes "fetch net (this_timeout c) url (fetchOptions method hdrs data) w = (Inr resp, w1)"
      and "status resp < 200 \<or> 300 \<le> status resp"
      and "status resp \<noteq> 429 \<or> this_retries c \<le> attempt"
      and "get_message (responseData resp) = Inr m"
      and "to_string (case m of
                        None \<Rightarrow> JStr (''HTTP '' @ string_of_nat (status resp))
                      | Some v \<Rightarrow> if truthy v then v else JStr (''HTTP '' @ string_of_nat (status resp)))
           = Inr s"
  shows "try_block c net url method hdrs data attempt w =
           (Throw (NotiBoostError (JStr s) (status resp) (responseData resp)), w1)"
  using assms by (auto simp add: try_block_def new_NotiBoostError_def)

lemma try_block_unconvertible_message:
  assumes "fetch net (this_timeout c) url (fetchOptions method hdrs data) w = (Inr resp, w1)"
      and "status resp < 200 \<or> 300 \<le> status resp"
      and "status resp \<noteq> 429 \<or> this_retries c \<le> attempt"
      and "get_message (responseData resp) = Inr m"
      and "to_string (case m of
                        None \<Rightarrow> JStr (''HTTP '' @ string_of_nat (status resp))
                      | Some v \<Rightarrow> if truthy v then v else JStr (''HTTP '' @ string_of_nat (status resp)))
           = Inl e"
  shows "try_block c net url method hdrs data attempt w = (Throw e, w1)"
  using assms by (auto simp add: try_block_def new_NotiBoostError_def)

lemma try_block_null_body:
  assumes "fetch net (this_timeout c) url (fetchOptions method hdrs data) w = (Inr resp, w1)"
      and "status resp < 200 \<or> 300 \<le> status resp"
      and "status resp \<noteq> 429 \<or> this_retries c \<le> attempt"
      and "responseData resp = JNull"
  shows "try_block c net url method hdrs data attempt w = (Throw (TypeError_null ''message''), w1)"
  using assms by (auto simp add: try_block_def)

lemma get_message_not_null: "v \<noteq> JNull \<Longrightarrow> \<exists>m. get_message v = Inr m"
  by (cases v) simp_all

section \<open>Outcomes of an attempt and of a whole request\<close>

text \<open>A response that is neither a success nor retried, with a body that is not \<^verbatim>\<open>null\<close>, ends
  the loop with a \<open>NotiBoostError\<close>; with the body \<^verbatim>\<open>null\<close> on the last attempt, with a
  \<^verbatim>\<open>TypeError\<close>.\<close>

lemma loop_api_error:
  assumes "attempt \<le> this_retries c"
      and "fetch net (this_timeout c) url (fetchOptions method hdrs data) w = (Inr resp, w1)"
      and "status resp < 200 \<or> 300 \<le> status resp"
      and "status resp \<noteq> 429 \<or> this_retries c \<le> attempt"
      and "get_message (responseData resp) = Inr m"
      and "to_string (case m of
                        None \<Rightarrow> JStr (''HTTP '' @ string_of_nat (status resp))
                      | Some v \<Rightarrow> if truthy v then v else JStr (''HTTP '' @ string_of_nat (status resp)))
           = Inr s"
  shows "attempt_loop c net url method hdrs data attempt lastError w =
           (Inl (NotiBoostError (JStr s) (status resp) (responseData resp)),
            w\<lparr>calls := calls w + 1, trace := trace w @ [Fetch url (fetchOptions method hdrs data)]\<rparr>)"
proof -
  let ?err = "NotiBoostError (JStr s) (status resp) (responseData resp)"
  have "try_block c net url method hdrs data attempt w = (Throw ?err, w1)"
    using assms(2-6) by (rule try_block_api_error)
  moreover have "attempt = this_retries c \<or> instanceof_NotiBoostError ?err"
    by simp
  ultimately have "attempt_loop c net url method hdrs data attempt lastError w = (Inl ?err, w1)"
    using assms(1) by (rule loop_step_rethrow [rotated])
  moreover have "w1 = w\<lparr>calls := calls w + 1, trace := trace w @ [Fetch url (fetchOptions method hdrs data)]\<rparr>"
    using assms(2) by (rule fetch_world)
  ultimately show ?thesis
    by simp
qed

lemma loop_null_body_exhausted:
  assumes "fetch net (this_timeout c) url (fetchOptions method hdrs data) w = (Inr resp, w1)"
      and "status resp < 200 \<or> 300 \<le> status resp"
      and "json_result resp = Some JNull"
  shows "attempt_loop c net url method hdrs data (this_retries c) lastError w =
           (Inl (TypeError_null ''message''), w1)"
proof -
  have d: "responseData resp = JNull"
    using assms(3) by (simp add: responseData_def)
  have "try_block c net url method hdrs data (this_retries c) w = (Throw (TypeError_null ''message''), w1)"
    by (rule try_block_null_body [OF assms(1,2) _ d]) simp
  then show ?thesis
    by (intro loop_step_rethrow) simp_all
qed

text \<open>
  A \<^verbatim>\<open>request\<close> adds to the trace only sleeps and calls of \<^verbatim>\<open>fetch\<close> with one and the same
  URL and options, and makes at most \<open>retries + 1\<close> such calls, one after the other.
\<close>

lemma request_attempts_bounded:
  "\<exists>s. trace (snd (request c net method path data options w)) = trace w @ s
       \<and> set s \<subseteq> insert (Fetch (this_baseURL c @ path)
                               (fetchOptions method
                                  (merge_headers [(''Authorization'', ''Bearer '' @ this_apiKey c),
                                                  (''Content-Type'', ''application/json'')] options)
                                  data))
                       (range Sleep)
       \<and> calls (snd (request c net method path data options w)) \<le> calls w + (this_retries c + 1)"
proof -
  let ?url = "this_baseURL c @ path"
  let ?hdrs = "merge_headers [(''Authorization'', ''Bearer '' @ this_apiKey c),
                              (''Content-Type'', ''application/json'')] options"
  from attempt_loop_effects [of c net ?url "method" ?hdrs data 0 Undefined w]
  obtain s where
    "trace (snd (attempt_loop c net ?url method ?hdrs data 0 Undefined w)) = trace w @ s"
    "set s \<subseteq> insert (Fetch ?url (fetchOptions method ?hdrs data)) (range Sleep)"
    "calls (snd (attempt_loop c net ?url method ?hdrs data 0 Undefined w))
       \<le> calls w + (this_retries c + 1 - 0)"
    by blast
  then show ?thesis
    unfolding request_def Let_def by (intro exI [of _ s]) simp
qed

text \<open>A network failure on the last attempt is thrown as it is; it is no \<open>NotiBoostError\<close>.\<close>

lemma transport_failure_propagates:
  assumes "fetch net (this_timeout c) url (fetchOptions method hdrs data) w = (Inl e, w1)"
  shows "attempt_loop c net url method hdrs data (this_retries c) lastError w =
           (Inl e, w\<lparr>calls := calls w + 1, trace := trace w @ [Fetch url (fetchOptions method hdrs data)]\<rparr>)
         \<and> \<not> instanceof_NotiBoostError e"
proof -
  have "try_block c net url method hdrs data (this_retries c) w = (Throw e, w1)"
    using assms by (rule try_block_rejected)
  then have "attempt_loop c net url method hdrs data (this_retries c) lastError w = (Inl e, w1)"
    by (intro loop_step_rethrow) simp_all
  moreover have "w1 = w\<lparr>calls := calls w + 1, trace := trace w @ [Fetch url (fetchOptions method hdrs data)]\<rparr>"
    using assms by (rule fetch_world)
  moreover have "\<not> instanceof_NotiBoostError e"
    using fetch_rejection [OF assms] by auto
  ultimately show ?thesis
    by simp
qed

text \<open>A 429 on the last attempt whose parsed body is not \<^verbatim>\<open>null\<close> and whose message converts
  to a string is thrown as a \<open>NotiBoostError\<close> with status 429.\<close>

lemma exhausted_rate_limit_raises_api_error:
  assumes "fetch net (this_timeout c) url (fetchOptions method hdrs data) w = (Inr resp, w1)"
      and "status resp = 429"
      and "get_message (responseData resp) = Inr m"
      and "to_string (case m of
                        None \<Rightarrow> JStr (''HTTP '' @ string_of_nat (status resp))
                      | Some v \<Rightarrow> if truthy v then v else JStr (''HTTP '' @ string_of_nat (status resp)))
           = Inr s"
  shows "attempt_loop c net url method hdrs data (this_retries c) lastError w =
           (Inl (NotiBoostError (JStr s) 429 (responseData resp)),
            w\<lparr>calls := calls w + 1, trace := trace w @ [Fetch url (fetchOptions method hdrs data)]\<rparr>)"
proof -
  have "status resp < 200 \<or> 300 \<le> status resp" "status resp \<noteq> 429 \<or> this_retries c \<le> this_retries c"
    using assms(2) by simp_all
  from loop_api_error [OF _ assms(1) this assms(3,4), of lastError] assms(2) show ?thesis
    by simp
qed

text \<open>
  A 429 with attempts left: the delay in seconds is \<open>parseInt\<close> of the \<^verbatim>\<open>Retry-After\<close> header,
  with 1 when the header is absent or empty; the loop sleeps 1000 times that and goes on to
  the next attempt, which sends the same request.
\<close>

lemma rate_limit_retry:
  assumes "attempt < this_retries c"
      and "fetch net (this_timeout c) url (fetchOptions method hdrs data) w = (Inr resp, w1)"
      and "status resp = 429"
  shows "(headers_get resp ''Retry-After'' = None \<or> headers_get resp ''Retry-After'' = Some []
            \<longrightarrow> times_1000 (retryAfter resp) = Some 1000)
       \<and> (\<forall>s. headers_get resp ''Retry-After'' = Some s \<and> s \<noteq> [] \<longrightarrow> retryAfter resp = parseInt s)
       \<and> (\<forall>n. headers_get resp ''Retry-After'' = Some (string_of_nat n) \<and> n * 1000 < 2 ^ 53
            \<longrightarrow> times_1000 (retryAfter resp) = Some (int n * 1000))
       \<and> attempt_loop c net url method hdrs data attempt lastError w =
           attempt_loop c net url method hdrs data (attempt + 1) lastError
             (w\<lparr>calls := calls w + 1,
                trace := trace w @ [Fetch url (fetchOptions method hdrs data),
                                    Sleep (times_1000 (retryAfter resp))]\<rparr>)
       \<and> (\<exists>rest. trace (snd (attempt_loop c net url method hdrs data attempt lastError w)) =
             trace w @ [Fetch url (fetchOptions method hdrs data),
                        Sleep (times_1000 (retryAfter resp)),
                        Fetch url (fetchOptions method hdrs data)] @ rest)"
proof -
  let ?fo = "fetchOptions method hdrs data"
  let ?ms = "times_1000 (retryAfter resp)"
  let ?w2 = "w\<lparr>calls := calls w + 1, trace := trace w @ [Fetch url ?fo, Sleep ?ms]\<rparr>"
  have one: "parseInt ''1'' = Some 1"
    by (simp add: parseInt_def is_space_def digit_value_def double_of_nat_def)
  have "times_1000 (Some 1) = Some 1000"
    using times_1000_exact [of 1] by simp
  then have absent: "headers_get resp ''Retry-After'' = None \<or> headers_get resp ''Retry-After'' = Some []
      \<longrightarrow> ?ms = Some 1000"
    using one by (auto simp: retryAfter_def)
  have given: "\<forall>s. headers_get resp ''Retry-After'' = Some s \<and> s \<noteq> [] \<longrightarrow> retryAfter resp = parseInt s"
    by (simp add: retryAfter_def)
  have numeral: "?ms = Some (int n * 1000)"
    if h: "headers_get resp ''Retry-After'' = Some (string_of_nat n)" and n: "n * 1000 < 2 ^ 53" for n
  proof -
    have "n < 2 ^ 53" using n by simp
    then have "retryAfter resp = Some (int n)"
      using h string_of_nat_digits [of n] by (simp add: retryAfter_def parseInt_string_of_nat)
    then show ?thesis using n by (simp add: times_1000_exact)
  qed
  have w1: "w1 = w\<lparr>calls := calls w + 1, trace := trace w @ [Fetch url ?fo]\<rparr>"
    using assms(2) by (rule fetch_world)
  have "try_block c net url method hdrs data attempt w = (Continue, sleep ?ms w1)"
    using assms(2,3,1) by (rule try_block_rate_limited)
  then have "attempt_loop c net url method hdrs data attempt lastError w =
      attempt_loop c net url method hdrs data (attempt + 1) lastError (sleep ?ms w1)"
    using assms(1) by (simp add: loop_step_continue)
  then have step: "attempt_loop c net url method hdrs data attempt lastError w =
      attempt_loop c net url method hdrs data (attempt + 1) lastError ?w2"
    using w1 by (simp add: sleep_def)
  have "attempt + 1 \<le> this_retries c"
    using assms(1) by simp
  from loop_first_fetch [OF this, of net url _ hdrs data lastError ?w2]
  have "\<exists>rest. trace (snd (attempt_loop c net url method hdrs data attempt lastError w)) =
      trace w @ [Fetch url ?fo, Sleep ?ms, Fetch url ?fo] @ rest"
    unfolding step by simp
  with absent given numeral step show ?thesis
    by blast
qed

text \<open>Assigning a member that an object does not have adds it after the others.\<close>

lemma update_absent: "map_of al k = None \<Longrightarrow> AList.update k v al = al @ [(k, v)]"
  by (induction al) (auto split: if_splits)

section \<open>Evaluating a run\<close>

text \<open>The equations that evaluate a run on a concrete client and network.\<close>

lemmas run_simps =
  request_def attempt_loop.simps try_block_def catch_block_def fetch_def sleep_def fetchOptions_def
  new_NotiBoostError_def responseData_def retryAfter_def times_1000_def double_of_nat_def
  merge_headers_def parseInt_def is_space_def digit_value_def Let_def

lemmas date_simps =
  toISOString_def year_text_def pad_def replicate_two YearFromTime_def MonthFromTime_def
  DateFromTime_def DayWithinYear_def Day_def msPerDay_def HourFromTime_def MinFromTime_def
  SecFromTime_def msFromTime_def DayFromYear_def InLeapYear_def year_search.simps
  string_of_nat.simps Let_def

lemmas scenario_defs =
  world0_def default_client_def single_retry_client_def default_headers_def answer_def no_headers_def
  retry_after_header_def ok_body_def net_always_def net_limited_once_def net_slow_once_def
  net_down_once_def net_down_def

section \<open>The claims\<close>

text \<open>
  \<^verbatim>\<open>request\<close> is \<open>attempt_loop\<close> started at attempt 0. The results on a single response are
  stated for the loop at any attempt and in any world, hence for every attempt of every
  \<^verbatim>\<open>request\<close>; \<open>calls\<close> counts the network attempts and \<open>trace\<close> lists them with the sleeps
  between them.
\<close>

subsection \<open>C1\<close>

text \<open>
  C1. The claim fails on a \<^verbatim>\<open>Retry-After\<close> header that is not a number, such as the HTTP date
  the header may carry: \<^verbatim>\<open>parseInt\<close> gives \<^verbatim>\<open>NaN\<close>, the default of one second is not taken, and
  the sleep before the next attempt is asked for \<^verbatim>\<open>NaN\<close> milliseconds, which a timer takes as
  none. (For an absent or empty header, and for a decimal numeral, the sleep is as the claim
  says: \<open>rate_limit_retry\<close>.)
\<close>

theorem retry_after_http_date_no_delay:
  "retryAfter \<lparr>status = 429, headers_get = retry_after_header ''Wed, 21 Oct 2015 07:28:00 GMT'',
               json_result = None\<rparr> = None
   \<and> request default_client (net_limited_once ''Wed, 21 Oct 2015 07:28:00 GMT'') ''GET''
        ''/api/v1/users/u_123'' JNull \<lparr>headers = None\<rparr> world0
      = (Inr ok_body,
         \<lparr>calls = 2,
            trace = [Fetch ''https://api.notiboost.com/api/v1/users/u_123''
                       \<lparr>init_method = ''GET'', init_headers = default_headers, init_body = None\<rparr>,
                     Sleep None,
                     Fetch ''https://api.notiboost.com/api/v1/users/u_123''
                       \<lparr>init_method = ''GET'', init_headers = default_headers, init_body = None\<rparr>]\<rparr>)"
  by (simp add: run_simps scenario_defs)

subsection \<open>C2\<close>

text \<open>
  C2 (as amended). When the attempt's \<^verbatim>\<open>fetch\<close> resolves with a status that is neither in
  [200,300) nor 429, the parsed body is not \<^verbatim>\<open>null\<close> (so that its \<^verbatim>\<open>message\<close> can be read, \<open>m\<close>
  being the member or \<open>None\<close>) and the message converts to a string \<open>s\<close>, the loop raises a
  \<open>NotiBoostError\<close> with that status and the parsed body at once: one network attempt, no
  sleep, whatever the number of attempts left. Its message is the string form of the body's
  \<^verbatim>\<open>message\<close> member when there is one and it is truthy (not \<^verbatim>\<open>null\<close>, \<^verbatim>\<open>false\<close>, \<^verbatim>\<open>0\<close> or the
  empty string), the member itself when that is a string, and \<^verbatim>\<open>HTTP <status>\<close> otherwise.
\<close>

theorem fatal_status_raises_api_error:
  assumes "attempt \<le> this_retries c"
      and "fetch net (this_timeout c) url (fetchOptions method hdrs data) w = (Inr resp, w1)"
      and "status resp < 200 \<or> 300 \<le> status resp"
      and "status resp \<noteq> 429"
      and "get_message (responseData resp) = Inr m"
      and "to_string (case m of
                        None \<Rightarrow> JStr (''HTTP '' @ string_of_nat (status resp))
                      | Some v \<Rightarrow> if truthy v then v else JStr (''HTTP '' @ string_of_nat (status resp)))
           = Inr s"
  shows "attempt_loop c net url method hdrs data attempt lastError w =
           (Inl (NotiBoostError (JStr s) (status resp) (responseData resp)),
            w\<lparr>calls := calls w + 1, trace := trace w @ [Fetch url (fetchOptions method hdrs data)]\<rparr>)
       \<and> responseData resp \<noteq> JNull
       \<and> (\<forall>kvs. responseData resp = JObj kvs \<longrightarrow> m = map_of kvs ''message'')
       \<and> ((\<forall>kvs. responseData resp \<noteq> JObj kvs) \<longrightarrow> m = None)
       \<and> (\<forall>v. m = Some v \<and> truthy v \<longrightarrow> to_string v = Inr s)
       \<and> (\<forall>t. m = Some (JStr t) \<and> t \<noteq> [] \<longrightarrow> s = t)
       \<and> (m = None \<or> (\<exists>v. m = Some v \<and> \<not> truthy v) \<longrightarrow> s = ''HTTP '' @ string_of_nat (status resp))"
proof -
  have nn: "responseData resp \<noteq> JNull"
    using assms(5) by auto
  have obj: "\<forall>kvs. responseData resp = JObj kvs \<longrightarrow> m = map_of kvs ''message''"
    using assms(5) by auto
  have other: "(\<forall>kvs. responseData resp \<noteq> JObj kvs) \<longrightarrow> m = None"
    using assms(5) by (cases "responseData resp") auto
  have conv: "\<forall>v. m = Some v \<and> truthy v \<longrightarrow> to_string v = Inr s"
    using assms(6) by auto
  have str: "\<forall>t. m = Some (JStr t) \<and> t \<noteq> [] \<longrightarrow> s = t"
    using assms(6) by auto
  have dflt: "m = None \<or> (\<exists>v. m = Some v \<and> \<not> truthy v) \<longrightarrow> s = ''HTTP '' @ string_of_nat (status resp)"
    using assms(6) by auto
  have "status resp \<noteq> 429 \<or> this_retries c \<le> attempt"
    using assms(4) by simp
  from loop_api_error [OF assms(1-3) this assms(5,6)] nn obj other conv str dflt show ?thesis
    by blast
qed

theorem fatal_status_raises_api_error_witness:
  "(0::nat) \<le> this_retries default_client
   \<and> fetch (net_always 404 (Some (JObj [(''message'', JStr ''User not found'')]))) (this_timeout default_client)
        ''https://api.notiboost.com/api/v1/users/u_123'' (fetchOptions ''GET'' default_headers JNull) world0
      = (Inr \<lparr>status = 404, headers_get = no_headers,
               json_result = Some (JObj [(''message'', JStr ''User not found'')])\<rparr>,
         \<lparr>calls = 1, trace = [Fetch ''https://api.notiboost.com/api/v1/users/u_123''
                                 (fetchOptions ''GET'' default_headers JNull)]\<rparr>)
   \<and> attempt_loop default_client (net_always 404 (Some (JObj [(''message'', JStr ''User not found'')])))
        ''https://api.notiboost.com/api/v1/users/u_123'' ''GET'' default_headers JNull 0 Undefined world0
      = (Inl (NotiBoostError (JStr ''User not found'') 404 (JObj [(''message'', JStr ''User not found'')])),
         \<lparr>calls = 1, trace = [Fetch ''https://api.notiboost.com/api/v1/users/u_123''
                                 (fetchOptions ''GET'' default_headers JNull)]\<rparr>)
   \<and> fst (request default_client (net_always 500 (Some (JObj [(''message'', JNum ''42'')]))) ''GET''
             ''/api/v1/users/u_123'' JNull \<lparr>headers = None\<rparr> world0)
      = Inl (NotiBoostError (JStr ''42'') 500 (JObj [(''message'', JNum ''42'')]))"
proof -
  let ?url = "''https://api.notiboost.com/api/v1/users/u_123''"
  let ?fo = "fetchOptions ''GET'' default_headers JNull"
  let ?body = "JObj [(''message'', JStr ''User not found'')]"
  let ?resp = "\<lparr>status = 404, headers_get = no_headers, json_result = Some ?body\<rparr>"
  have r: "(0::nat) \<le> this_retries default_client"
    by simp
  have f: "fetch (net_always 404 (Some ?body)) (this_timeout default_client) ?url ?fo world0
      = (Inr ?resp, \<lparr>calls = 1, trace = [Fetch ?url ?fo]\<rparr>)"
    by (simp add: fetch_def net_always_def answer_def default_client_def world0_def)
  have s: "status ?resp < 200 \<or> 300 \<le> status ?resp" "status ?resp \<noteq> 429"
    by simp_all
  have m: "get_message (responseData ?resp) = Inr (Some (JStr ''User not found''))"
    by (simp add: responseData_def)
  have t: "to_string (case Some (JStr ''User not found'') of
                        None \<Rightarrow> JStr (''HTTP '' @ string_of_nat (status ?resp))
                      | Some v \<Rightarrow> if truthy v then v else JStr (''HTTP '' @ string_of_nat (status ?resp)))
           = Inr ''User not found''"
    by simp
  have n: "fst (request default_client (net_always 500 (Some (JObj [(''message'', JNum ''42'')]))) ''GET''
             ''/api/v1/users/u_123'' JNull \<lparr>headers = None\<rparr> world0)
      = Inl (NotiBoostError (JStr ''42'') 500 (JObj [(''message'', JNum ''42'')]))"
    by (simp add: run_simps scenario_defs)
  show ?thesis
    using fatal_status_raises_api_error [OF r f s m t, of Undefined] f n
    by (simp add: world0_def responseData_def)
qed

text \<open>
  The claim as stated fails when the server supplies an empty \<^verbatim>\<open>message\<close>: the member is
  present, and the error's message is \<^verbatim>\<open>HTTP 404\<close>.
\<close>

theorem empty_message_counterexample:
  "map_of [(''message'', JStr [])] ''message'' = Some (JStr [])
   \<and> fst (request default_client (net_always 404 (Some (JObj [(''message'', JStr [])]))) ''GET''
             ''/api/v1/users/u_123'' JNull \<lparr>headers = None\<rparr> world0)
      = Inl (NotiBoostError (JStr ''HTTP 404'') 404 (JObj [(''message'', JStr [])]))
   \<and> JStr ''HTTP 404'' \<noteq> JStr []"
  by (simp add: run_simps scenario_defs string_of_nat.simps)

text \<open>
  Left out of the amended claim: a body \<^verbatim>\<open>null\<close>, and a message that does not convert to a
  string. In both cases a \<^verbatim>\<open>TypeError\<close> is thrown inside the \<^verbatim>\<open>try\<close> block, which the \<^verbatim>\<open>catch\<close>
  block takes for a failed attempt: here a 404 is tried four times.
\<close>

lemma unconvertible_message_is_retried:
  "request default_client (net_always 404 (Some (JObj [(''message'', JObj [(''toString'', JNum ''0'')])])))
     ''GET'' ''/api/v1/users/u_123'' JNull \<lparr>headers = None\<rparr> world0
   = (Inl TypeError_primitive,
      \<lparr>calls = 4,
         trace = [Fetch ''https://api.notiboost.com/api/v1/users/u_123'' (fetchOptions ''GET'' default_headers JNull),
                  Sleep (Some 1000),
                  Fetch ''https://api.notiboost.com/api/v1/users/u_123'' (fetchOptions ''GET'' default_headers JNull),
                  Sleep (Some 2000),
                  Fetch ''https://api.notiboost.com/api/v1/users/u_123'' (fetchOptions ''GET'' default_headers JNull),
                  Sleep (Some 4000),
                  Fetch ''https://api.notiboost.com/api/v1/users/u_123'' (fetchOptions ''GET'' default_headers JNull)]\<rparr>)"
  by (simp add: run_simps scenario_defs)

subsection \<open>C3\<close>

text \<open>
  C3. The claim fails on a 429 whose body is the JSON text \<^verbatim>\<open>null\<close>: on the last attempt,
  reading \<^verbatim>\<open>responseData.message\<close> throws a \<^verbatim>\<open>TypeError\<close> before the \<open>NotiBoostError\<close> is built,
  and that is what the caller gets after the four attempts of the default client. (The bound on
  the attempts is \<open>request_attempts_bounded\<close>; a 429 on the last attempt whose body is not
  \<^verbatim>\<open>null\<close> and whose message converts to a string does raise the error of status 429,
  \<open>exhausted_rate_limit_raises_api_error\<close>.)
\<close>

theorem exhausted_rate_limit_null_body:
  "request default_client (net_always 429 (Some JNull)) ''GET'' ''/api/v1/users/u_123'' JNull
     \<lparr>headers = None\<rparr> world0
   = (Inl (TypeError_null ''message''),
      \<lparr>calls = 4,
         trace = [Fetch ''https://api.notiboost.com/api/v1/users/u_123'' (fetchOptions ''GET'' default_headers JNull),
                  Sleep (Some 1000),
                  Fetch ''https://api.notiboost.com/api/v1/users/u_123'' (fetchOptions ''GET'' default_headers JNull),
                  Sleep (Some 1000),
                  Fetch ''https://api.notiboost.com/api/v1/users/u_123'' (fetchOptions ''GET'' default_headers JNull),
                  Sleep (Some 1000),
                  Fetch ''https://api.notiboost.com/api/v1/users/u_123'' (fetchOptions ''GET'' default_headers JNull)]\<rparr>)"
  by (simp add: run_simps scenario_defs)

subsection \<open>C4\<close>

text \<open>
  C4. When the attempt's \<^verbatim>\<open>fetch\<close> fails at the network level (the timer fires before the
  network has answered, which aborts the call, or the network itself fails) and attempts
  remain, the loop sleeps \<open>2 ^ attempt\<close> seconds (1000, 2000, 4000, ... milliseconds from
  attempt 0 on) and goes on to the next attempt, which sends the same request.
\<close>

theorem network_failure_backoff:
  assumes "attempt < this_retries c"
      and "this_timeout c \<le> latency (net (calls w) url (fetchOptions method hdrs data))
           \<or> reply (net (calls w) url (fetchOptions method hdrs data)) = Fails m"
  shows "fst (fetch net (this_timeout c) url (fetchOptions method hdrs data) w) =
           Inl (if this_timeout c \<le> latency (net (calls w) url (fetchOptions method hdrs data))
                then AbortError else FetchFailed m)
       \<and> attempt_loop c net url method hdrs data attempt lastError w =
           attempt_loop c net url method hdrs data (attempt + 1)
             (if this_timeout c \<le> latency (net (calls w) url (fetchOptions method hdrs data))
              then AbortError else FetchFailed m)
             (w\<lparr>calls := calls w + 1,
                trace := trace w @ [Fetch url (fetchOptions method hdrs data),
                                    Sleep (Some (2 ^ attempt * 1000))]\<rparr>)
       \<and> (\<exists>rest. trace (snd (attempt_loop c net url method hdrs data attempt lastError w)) =
             trace w @ [Fetch url (fetchOptions method hdrs data),
                        Sleep (Some (2 ^ attempt * 1000)),
                        Fetch url (fetchOptions method hdrs data)] @ rest)"
proof -
  let ?fo = "fetchOptions method hdrs data"
  let ?e = "if this_timeout c \<le> latency (net (calls w) url ?fo) then AbortError else FetchFailed m"
  let ?w1 = "w\<lparr>calls := calls w + 1, trace := trace w @ [Fetch url ?fo]\<rparr>"
  let ?w2 = "w\<lparr>calls := calls w + 1, trace := trace w @ [Fetch url ?fo, Sleep (Some (2 ^ attempt * 1000))]\<rparr>"
  have f: "fetch net (this_timeout c) url ?fo w = (Inl ?e, ?w1)"
    using assms(2) by (auto simp: fetch_def Let_def)
  have ne: "\<not> instanceof_NotiBoostError ?e"
    by simp
  have "try_block c net url method hdrs data attempt w = (Throw ?e, ?w1)"
    using f by (rule try_block_rejected)
  from loop_step_caught_retry [OF assms(1) this ne]
  have step: "attempt_loop c net url method hdrs data attempt lastError w =
      attempt_loop c net url method hdrs data (attempt + 1) ?e ?w2"
    by (simp add: sleep_def)
  have "attempt + 1 \<le> this_retries c"
    using assms(1) by simp
  from loop_first_fetch [OF this, of net url _ hdrs data ?e ?w2]
  have "\<exists>rest. trace (snd (attempt_loop c net url method hdrs data attempt lastError w)) =
      trace w @ [Fetch url ?fo, Sleep (Some (2 ^ attempt * 1000)), Fetch url ?fo] @ rest"
    unfolding step by simp
  with f step show ?thesis
    by simp
qed

theorem network_failure_backoff_witness:
  "(0::nat) < this_retries default_client
   \<and> this_timeout default_client
       \<le> latency (net_slow_once (calls world0) ''https://api.notiboost.com/api/v1/users/u_123''
                     (fetchOptions ''GET'' default_headers JNull))
   \<and> attempt_loop default_client net_slow_once ''https://api.notiboost.com/api/v1/users/u_123''
        ''GET'' default_headers JNull 0 Undefined world0
      = attempt_loop default_client net_slow_once ''https://api.notiboost.com/api/v1/users/u_123''
          ''GET'' default_headers JNull 1 AbortError
          \<lparr>calls = 1, trace = [Fetch ''https://api.notiboost.com/api/v1/users/u_123''
                                  (fetchOptions ''GET'' default_headers JNull),
                                Sleep (Some 1000)]\<rparr>
   \<and> request default_client net_down ''GET'' ''/api/v1/users/u_123'' JNull \<lparr>headers = None\<rparr> world0
      = (Inl (FetchFailed ''Failed to fetch''),
         \<lparr>calls = 4,
            trace = [Fetch ''https://api.notiboost.com/api/v1/users/u_123'' (fetchOptions ''GET'' default_headers JNull),
                     Sleep (Some 1000),
                     Fetch ''https://api.notiboost.com/api/v1/users/u_123'' (fetchOptions ''GET'' default_headers JNull),
                     Sleep (Some 2000),
                     Fetch ''https://api.notiboost.com/api/v1/users/u_123'' (fetchOptions ''GET'' default_headers JNull),
                     Sleep (Some 4000),
                     Fetch ''https://api.notiboost.com/api/v1/users/u_123'' (fetchOptions ''GET'' default_headers JNull)]\<rparr>)"
proof -
  let ?url = "''https://api.notiboost.com/api/v1/users/u_123''"
  let ?fo = "fetchOptions ''GET'' default_headers JNull"
  have r: "(0::nat) < this_retries default_client"
    by (simp add: default_client_def)
  have t: "this_timeout default_client \<le> latency (net_slow_once (calls world0) ?url ?fo)"
    by (simp add: default_client_def net_slow_once_def world0_def)
  have t': "this_timeout default_client \<le> latency (net_slow_once (calls world0) ?url ?fo)
      \<or> reply (net_slow_once (calls world0) ?url ?fo) = Fails []"
    using t by simp
  have run: "request default_client net_down ''GET'' ''/api/v1/users/u_123'' JNull \<lparr>headers = None\<rparr> world0
      = (Inl (FetchFailed ''Failed to fetch''),
         \<lparr>calls = 4, trace = [Fetch ?url ?fo, Sleep (Some 1000), Fetch ?url ?fo, Sleep (Some 2000),
                               Fetch ?url ?fo, Sleep (Some 4000), Fetch ?url ?fo]\<rparr>)"
    by (simp add: run_simps scenario_defs)
  show ?thesis
    using network_failure_backoff [of 0 default_client net_slow_once world0 ?url "''GET''" default_headers JNull "[]" Undefined, OF r t']
      r t run by (simp add: world0_def)
qed

subsection \<open>C5\<close>

text \<open>
  C5. When the attempt's \<^verbatim>\<open>fetch\<close> resolves with a status in [200,300), the loop returns the
  body parsed as JSON, or the empty object when the body is absent or unparseable, and stops:
  the world has exactly one more network attempt and no sleep. At attempt 0 this is a
  \<^verbatim>\<open>request\<close> with exactly one attempt, as the instance below shows.
\<close>

theorem success_returns_parsed_body:
  assumes "attempt \<le> this_retries c"
      and "fetch net (this_timeout c) url (fetchOptions method hdrs data) w = (Inr resp, w1)"
      and "200 \<le> status resp" and "status resp < 300"
  shows "attempt_loop c net url method hdrs data attempt lastError w =
           (Inr (case json_result resp of Some v \<Rightarrow> v | None \<Rightarrow> JObj []),
            w\<lparr>calls := calls w + 1, trace := trace w @ [Fetch url (fetchOptions method hdrs data)]\<rparr>)"
proof -
  have "try_block c net url method hdrs data attempt w = (Return (responseData resp), w1)"
    using assms(2-4) by (rule try_block_success)
  then have "attempt_loop c net url method hdrs data attempt lastError w = (Inr (responseData resp), w1)"
    using assms(1) by (simp add: loop_step_return)
  moreover have "w1 = w\<lparr>calls := calls w + 1, trace := trace w @ [Fetch url (fetchOptions method hdrs data)]\<rparr>"
    using assms(2) by (rule fetch_world)
  ultimately show ?thesis
    by (simp add: responseData_def)
qed

theorem success_returns_parsed_body_witness:
  "0 \<le> this_retries default_client
   \<and> fetch (net_always 200 (Some ok_body)) (this_timeout default_client)
        ''https://api.notiboost.com/api/v1/users/u_123'' (fetchOptions ''GET'' default_headers JNull) world0
      = (Inr \<lparr>status = 200, headers_get = no_headers, json_result = Some ok_body\<rparr>,
         \<lparr>calls = 1, trace = [Fetch ''https://api.notiboost.com/api/v1/users/u_123''
                                 (fetchOptions ''GET'' default_headers JNull)]\<rparr>)
   \<and> request default_client (net_always 200 (Some ok_body)) ''GET'' ''/api/v1/users/u_123'' JNull
        \<lparr>headers = None\<rparr> world0
      = (Inr ok_body,
         \<lparr>calls = 1, trace = [Fetch ''https://api.notiboost.com/api/v1/users/u_123''
                                 \<lparr>init_method = ''GET'', init_headers = default_headers, init_body = None\<rparr>]\<rparr>)"
proof -
  let ?url = "''https://api.notiboost.com/api/v1/users/u_123''"
  let ?fo = "fetchOptions ''GET'' default_headers JNull"
  have f: "fetch (net_always 200 (Some ok_body)) (this_timeout default_client) ?url ?fo world0
      = (Inr \<lparr>status = 200, headers_get = no_headers, json_result = Some ok_body\<rparr>,
         \<lparr>calls = 1, trace = [Fetch ?url ?fo]\<rparr>)"
    by (simp add: fetch_def net_always_def answer_def default_client_def world0_def)
  have "attempt_loop default_client (net_always 200 (Some ok_body)) ?url ''GET'' default_headers JNull 0 Undefined world0
      = (Inr ok_body, \<lparr>calls = 1, trace = [Fetch ?url ?fo]\<rparr>)"
    using success_returns_parsed_body [OF _ f, of 0 Undefined] by (simp add: world0_def)
  then show ?thesis
    using f by (simp add: request_def merge_headers_def default_client_def default_headers_def fetchOptions_def)
qed

subsection \<open>C6\<close>

text \<open>
  C6. A network failure on the last attempt is propagated unchanged
  (\<open>transport_failure_propagates\<close>), but the second half of the claim fails on the same
  \<^verbatim>\<open>null\<close> body: after one network failure, a 429 answered to the last attempt of a client with
  one retry is thrown as a \<^verbatim>\<open>TypeError\<close>, not as a \<open>NotiBoostError\<close>.
\<close>

theorem exhausted_http_failure_null_body:
  "request single_retry_client (net_down_once 429 (Some JNull)) ''GET'' ''/api/v1/users/u_123'' JNull
     \<lparr>headers = None\<rparr> world0
   = (Inl (TypeError_null ''message''),
      \<lparr>calls = 2,
         trace = [Fetch ''https://api.notiboost.com/api/v1/users/u_123'' (fetchOptions ''GET'' default_headers JNull),
                  Sleep (Some 1000),
                  Fetch ''https://api.notiboost.com/api/v1/users/u_123'' (fetchOptions ''GET'' default_headers JNull)]\<rparr>)"
  by (simp add: run_simps scenario_defs)

subsection \<open>C7\<close>

text \<open>
  C7. A configuration whose API key is absent or empty makes the constructor throw
  \<^verbatim>\<open>Error('API key is required')\<close>; with a non-empty key it returns a client holding that
  key. In both cases the world is returned as it was: no network call and no timer.
\<close>

theorem construction_requires_api_key:
  "(apiKey config = None \<or> apiKey config = Some []
      \<longrightarrow> new_NotiBoostClient config w = (Inl (Error ''API key is required''), w))
   \<and> (\<forall>k. apiKey config = Some k \<and> k \<noteq> []
      \<longrightarrow> (\<exists>c. new_NotiBoostClient config w = (Inr c, w) \<and> this_apiKey c = k))"
  by (auto simp: new_NotiBoostClient_def)

theorem construction_requires_api_key_witness:
  "new_NotiBoostClient \<lparr>apiKey = None, baseURL = None, timeout = None, retries = None\<rparr> world0
     = (Inl (Error ''API key is required''), world0)
   \<and> new_NotiBoostClient \<lparr>apiKey = Some '''', baseURL = None, timeout = None, retries = None\<rparr> world0
     = (Inl (Error ''API key is required''), world0)
   \<and> new_NotiBoostClient \<lparr>apiKey = Some ''sk_test'', baseURL = None, timeout = None, retries = None\<rparr> world0
     = (Inr default_client, world0)"
  using construction_requires_api_key
          [of "\<lparr>apiKey = None, baseURL = None, timeout = None, retries = None\<rparr>" world0]
        construction_requires_api_key
          [of "\<lparr>apiKey = Some '''', baseURL = None, timeout = None, retries = None\<rparr>" world0]
        construction_requires_api_key
          [of "\<lparr>apiKey = Some ''sk_test'', baseURL = None, timeout = None, retries = None\<rparr>" world0]
  by (auto simp: new_NotiBoostClient_def default_client_def)

subsection \<open>C8\<close>

text \<open>
  C8 (as amended). \<^verbatim>\<open>ingest\<close> dispatches \<^verbatim>\<open>POST /api/v1/events\<close> with the event as the body. When
  \<^verbatim>\<open>occurred_at\<close> is absent, the event sent has it added after the other members, and when it is
  the empty string, replaced where it stands; in both cases its value is the current time as
  \<^verbatim>\<open>toISOString\<close> prints it, a non-empty ISO 8601 timestamp. When \<^verbatim>\<open>occurred_at\<close> is a non-empty
  string, the event is sent unchanged.
\<close>

theorem ingest_dispatch:
  "\<exists>sent rest.
     trace (snd (ingest c net now event options w)) =
       trace w @ Fetch (this_baseURL c @ ''/api/v1/events'')
                   \<lparr>init_method = ''POST'',
                      init_headers =
                        merge_headers [(''Authorization'', ''Bearer '' @ this_apiKey c),
                                       (''Content-Type'', ''application/json'')]
                          (case options of None \<Rightarrow> \<lparr>headers = None\<rparr> | Some opts \<Rightarrow> opts),
                      init_body = Some (JObj sent)\<rparr> # rest
     \<and> (map_of event ''occurred_at'' = None
          \<longrightarrow> sent = event @ [(''occurred_at'', JStr (toISOString now))])
     \<and> (map_of event ''occurred_at'' = Some (JStr [])
          \<longrightarrow> sent = AList.update ''occurred_at'' (JStr (toISOString now)) event
              \<and> map fst sent = map fst event
              \<and> (\<forall>k. k \<noteq> ''occurred_at'' \<longrightarrow> map_of sent k = map_of event k))
     \<and> (map_of event ''occurred_at'' = None \<or> map_of event ''occurred_at'' = Some (JStr [])
          \<longrightarrow> map_of sent ''occurred_at'' = Some (JStr (toISOString now)))
     \<and> (\<forall>t. map_of event ''occurred_at'' = Some (JStr t) \<and> t \<noteq> [] \<longrightarrow> sent = event)
     \<and> toISOString now \<noteq> []
     \<and> iso8601_utc (toISOString now)"
proof -
  let ?fill = "AList.update ''occurred_at'' (JStr (toISOString now)) event"
  let ?sent = "case map_of event ''occurred_at'' of
                 None \<Rightarrow> ?fill
               | Some v \<Rightarrow> if truthy v then event else ?fill"
  let ?hdrs = "merge_headers [(''Authorization'', ''Bearer '' @ this_apiKey c),
                              (''Content-Type'', ''application/json'')]
                 (case options of None \<Rightarrow> \<lparr>headers = None\<rparr> | Some opts \<Rightarrow> opts)"
  have fo: "fetchOptions ''POST'' ?hdrs (JObj ?sent) =
      \<lparr>init_method = ''POST'', init_headers = ?hdrs, init_body = Some (JObj ?sent)\<rparr>"
    by (simp add: fetchOptions_def)
  have "0 \<le> this_retries c"
    by simp
  from loop_first_fetch [OF this, of net "this_baseURL c @ ''/api/v1/events''" "''POST''" ?hdrs
      "JObj ?sent" Undefined w]
  obtain rest where t1:
    "trace (snd (ingest c net now event options w)) =
       trace w @ Fetch (this_baseURL c @ ''/api/v1/events'')
                   \<lparr>init_method = ''POST'', init_headers = ?hdrs, init_body = Some (JObj ?sent)\<rparr> # rest"
    unfolding fo by (auto simp: ingest_def request_def Let_def)
  have t2: "map_of event ''occurred_at'' = None
      \<longrightarrow> ?sent = event @ [(''occurred_at'', JStr (toISOString now))]"
    by (simp add: update_absent)
  have t3: "map_of event ''occurred_at'' = Some (JStr [])
      \<longrightarrow> ?sent = ?fill \<and> map fst ?sent = map fst event
          \<and> (\<forall>k. k \<noteq> ''occurred_at'' \<longrightarrow> map_of ?sent k = map_of event k)"
    by (auto simp: update_keys update_conv' dest: map_of_SomeD intro: rev_image_eqI)
  have t4: "map_of event ''occurred_at'' = None \<or> map_of event ''occurred_at'' = Some (JStr [])
      \<longrightarrow> map_of ?sent ''occurred_at'' = Some (JStr (toISOString now))"
    by (auto simp: update_conv')
  have t5: "\<forall>t. map_of event ''occurred_at'' = Some (JStr t) \<and> t \<noteq> [] \<longrightarrow> ?sent = event"
    by auto
  have t6: "toISOString now \<noteq> []"
    by (rule toISOString_nonempty)
  have t7: "iso8601_utc (toISOString now)"
    by (rule toISOString_format)
  show ?thesis
    by (rule exI [of _ ?sent], rule exI [of _ rest]) (intro conjI t1 t2 t3 t4 t5 t6 t7)
qed

theorem ingest_dispatch_witness:
  "map_of order_created ''occurred_at'' = None
   \<and> toISOString may_1st = ''2024-05-01T10:00:00.000Z''
   \<and> ingest default_client (net_always 200 (Some ok_body)) may_1st order_created None world0
      = (Inr ok_body,
         \<lparr>calls = 1,
            trace = [Fetch ''https://api.notiboost.com/api/v1/events''
                       \<lparr>init_method = ''POST'', init_headers = default_headers,
                          init_body = Some (JObj [(''event_name'', JStr ''order_created''),
                                                  (''event_id'', JStr ''evt_001''),
                                                  (''user_id'', JStr ''u_123''),
                                                  (''properties'', JObj [(''order_id'', JStr ''A001''),
                                                                         (''amount'', JNum ''350000'')]),
                                                  (''occurred_at'', JStr ''2024-05-01T10:00:00.000Z'')])\<rparr>]\<rparr>)
   \<and> (\<exists>rest. trace (snd (ingest default_client (net_always 200 (Some ok_body)) may_1st
                             ((''occurred_at'', JStr ''2024-04-30T08:15:00.000Z'') # order_created)
                             None world0))
        = Fetch ''https://api.notiboost.com/api/v1/events''
            \<lparr>init_method = ''POST'', init_headers = default_headers,
               init_body = Some (JObj ((''occurred_at'', JStr ''2024-04-30T08:15:00.000Z'') # order_created))\<rparr>
          # rest)"
proof -
  let ?given = "(''occurred_at'', JStr ''2024-04-30T08:15:00.000Z'') # order_created"
  have a: "map_of order_created ''occurred_at'' = None"
    by (simp add: order_created_def)
  have d: "toISOString may_1st = ''2024-05-01T10:00:00.000Z''"
    by (simp add: may_1st_def date_simps)
  have run: "ingest default_client (net_always 200 (Some ok_body)) may_1st order_created None world0
      = (Inr ok_body,
         \<lparr>calls = 1,
            trace = [Fetch ''https://api.notiboost.com/api/v1/events''
                       \<lparr>init_method = ''POST'', init_headers = default_headers,
                          init_body = Some (JObj [(''event_name'', JStr ''order_created''),
                                                  (''event_id'', JStr ''evt_001''),
                                                  (''user_id'', JStr ''u_123''),
                                                  (''properties'', JObj [(''order_id'', JStr ''A001''),
                                                                         (''amount'', JNum ''350000'')]),
                                                  (''occurred_at'', JStr ''2024-05-01T10:00:00.000Z'')])\<rparr>]\<rparr>)"
    unfolding ingest_def d by (simp add: order_created_def run_simps scenario_defs)
  have h: "merge_headers [(''Authorization'', ''Bearer '' @ this_apiKey default_client),
                          (''Content-Type'', ''application/json'')]
             (case None of None \<Rightarrow> \<lparr>headers = None\<rparr> | Some opts \<Rightarrow> opts) = default_headers"
    by (simp add: merge_headers_def default_client_def default_headers_def)
  have g: "map_of ?given ''occurred_at'' = Some (JStr ''2024-04-30T08:15:00.000Z'')"
    by simp
  from ingest_dispatch [of default_client "net_always 200 (Some ok_body)" may_1st ?given None world0]
  have "\<exists>rest. trace (snd (ingest default_client (net_always 200 (Some ok_body)) may_1st ?given None world0))
        = Fetch ''https://api.notiboost.com/api/v1/events''
            \<lparr>init_method = ''POST'', init_headers = default_headers, init_body = Some (JObj ?given)\<rparr> # rest"
    unfolding h using g by (auto simp: world0_def default_client_def)
  with a d run show ?thesis
    by blast
qed

text \<open>
  The claim as stated fails for an event whose \<^verbatim>\<open>occurred_at\<close> is set to the empty string:
  the event sent carries the current time instead.
\<close>

theorem empty_occurred_at_counterexample:
  "map_of ((''occurred_at'', JStr []) # order_created) ''occurred_at'' = Some (JStr [])
   \<and> trace (snd (ingest default_client (net_always 200 (Some ok_body)) may_1st
                    ((''occurred_at'', JStr []) # order_created) None world0))
      = [Fetch ''https://api.notiboost.com/api/v1/events''
           \<lparr>init_method = ''POST'', init_headers = default_headers,
              init_body = Some (JObj ((''occurred_at'', JStr ''2024-05-01T10:00:00.000Z'') # order_created))\<rparr>]
   \<and> JObj ((''occurred_at'', JStr ''2024-05-01T10:00:00.000Z'') # order_created)
       \<noteq> JObj ((''occurred_at'', JStr []) # order_created)"
proof -
  have d: "toISOString may_1st = ''2024-05-01T10:00:00.000Z''"
    by (simp add: may_1st_def date_simps)
  show ?thesis
    unfolding ingest_def d by (simp add: order_created_def run_simps scenario_defs)
qed

subsection \<open>C9\<close>

text \<open>
  C9. The constructor takes its defaults by falsiness: with a usable API key, \<^verbatim>\<open>retries: 0\<close>
  gives a client with 3 retries and \<^verbatim>\<open>timeout: 0\<close> one with a timeout of 30000 ms, so no
  constructed client has zero retries or a zero timeout.
\<close>

theorem falsy_options_take_defaults:
  assumes "apiKey config = Some k" and "k \<noteq> []"
  shows "\<exists>c. new_NotiBoostClient config w = (Inr c, w)
           \<and> (retries config = Some 0 \<longrightarrow> this_retries c = 3)
           \<and> (timeout config = Some 0 \<longrightarrow> this_timeout c = 30000)
           \<and> 0 < this_retries c \<and> 0 < this_timeout c"
  using assms by (auto simp: new_NotiBoostClient_def split: option.splits)

theorem falsy_options_take_defaults_witness:
  "apiKey \<lparr>apiKey = Some ''sk_test'', baseURL = None, timeout = Some 0, retries = Some 0\<rparr> = Some ''sk_test''
   \<and> ''sk_test'' \<noteq> []
   \<and> new_NotiBoostClient \<lparr>apiKey = Some ''sk_test'', baseURL = None, timeout = Some 0, retries = Some 0\<rparr> world0
     = (Inr \<lparr>this_apiKey = ''sk_test'', this_baseURL = ''https://api.notiboost.com'',
             this_timeout = 30000, this_retries = 3\<rparr>, world0)"
  using falsy_options_take_defaults
          [of "\<lparr>apiKey = Some ''sk_test'', baseURL = None, timeout = Some 0, retries = Some 0\<rparr>" "''sk_test''" world0]
  by (auto simp: new_NotiBoostClient_def)

subsection \<open>C10\<close>

text \<open>
  C10. When the attempt's \<^verbatim>\<open>fetch\<close> resolves with a status outside [200,300) that is not
  retried (not 429, or 429 on the last attempt) and \<^verbatim>\<open>response.json()\<close> rejects (no body, or
  a body that is not JSON), the loop raises a \<open>NotiBoostError\<close> whose response is the empty
  object and whose message is \<^verbatim>\<open>HTTP <status>\<close>.
\<close>

theorem unparseable_error_body:
  assumes "attempt \<le> this_retries c"
      and "fetch net (this_timeout c) url (fetchOptions method hdrs data) w = (Inr resp, w1)"
      and "status resp < 200 \<or> 300 \<le> status resp"
      and "status resp \<noteq> 429 \<or> attempt = this_retries c"
      and "json_result resp = None"
  shows "attempt_loop c net url method hdrs data attempt lastError w =
           (Inl (NotiBoostError (JStr (''HTTP '' @ string_of_nat (status resp))) (status resp) (JObj [])),
            w\<lparr>calls := calls w + 1, trace := trace w @ [Fetch url (fetchOptions method hdrs data)]\<rparr>)"
proof -
  have d: "responseData resp = JObj []"
    using assms(5) by (simp add: responseData_def)
  then have m: "get_message (responseData resp) = Inr None"
    by simp
  have "status resp \<noteq> 429 \<or> this_retries c \<le> attempt"
    using assms(4) by auto
  from loop_api_error [OF assms(1-3) this m] d show ?thesis
    by simp
qed

theorem unparseable_error_body_witness:
  "(0::nat) \<le> this_retries default_client
   \<and> fetch (net_always 500 None) (this_timeout default_client)
        ''https://api.notiboost.com/api/v1/users/u_123'' (fetchOptions ''GET'' default_headers JNull) world0
      = (Inr \<lparr>status = 500, headers_get = no_headers, json_result = None\<rparr>,
         \<lparr>calls = 1, trace = [Fetch ''https://api.notiboost.com/api/v1/users/u_123''
                                 (fetchOptions ''GET'' default_headers JNull)]\<rparr>)
   \<and> attempt_loop default_client (net_always 500 None)
        ''https://api.notiboost.com/api/v1/users/u_123'' ''GET'' default_headers JNull 0 Undefined world0
      = (Inl (NotiBoostError (JStr ''HTTP 500'') 500 (JObj [])),
         \<lparr>calls = 1, trace = [Fetch ''https://api.notiboost.com/api/v1/users/u_123''
                                 (fetchOptions ''GET'' default_headers JNull)]\<rparr>)"
proof -
  let ?url = "''https://api.notiboost.com/api/v1/users/u_123''"
  let ?fo = "fetchOptions ''GET'' default_headers JNull"
  let ?resp = "\<lparr>status = 500, headers_get = no_headers, json_result = None\<rparr>"
  have r: "(0::nat) \<le> this_retries default_client"
    by simp
  have f: "fetch (net_always 500 None) (this_timeout default_client) ?url ?fo world0
      = (Inr ?resp, \<lparr>calls = 1, trace = [Fetch ?url ?fo]\<rparr>)"
    by (simp add: fetch_def net_always_def answer_def default_client_def world0_def)
  have s: "status ?resp < 200 \<or> 300 \<le> status ?resp" "status ?resp \<noteq> 429 \<or> 0 = this_retries default_client"
    "json_result ?resp = None"
    by simp_all
  show ?thesis
    using unparseable_error_body [OF r f s, of Undefined] f
    by (simp add: world0_def string_of_nat.simps)
qed

end
